theory Spec2Isabelle
  imports Main
begin

section \<open>Data model (lib/database.types)\<close>

text \<open>
  The rows of the two tables. \<open>position\<close> is a JavaScript number holding a database
  integer, so it is an \<open>int\<close>. The row field \<open>id\<close> is written \<open>task_id\<close> and
  \<open>col_id\<close> here, since \<open>id\<close> is the identity function of HOL; the fields of a
  column carry the prefix \<open>col_\<close> because a record field name is global.
\<close>

datatype priority = low | medium | high

record column =
  col_id :: string
  col_title :: string
  col_position :: int
  col_user_id :: string
  col_created_at :: string
  col_updated_at :: string

record task =
  task_id :: string
  title :: string
  priority :: priority
  column_id :: string
  position :: int
  user_id :: string
  created_at :: string
  updated_at :: string

text \<open>The element type of the batches handled by \<open>updateTaskPositions\<close>:
  \<open>{ id: string; position: number; column_id: string }\<close>.\<close>

record upd =
  upd_id :: string
  upd_position :: int
  upd_column_id :: string

text \<open>The optional fields of the argument of \<open>updateTask\<close>; \<open>None\<close> is an absent
  property.\<close>

record task_update =
  tu_title :: "string option"
  tu_priority :: "priority option"
  tu_column_id :: "string option"
  tu_position :: "int option"

text \<open>A thrown JavaScript value: an instance of \<open>Error\<close> with its message, or any other
  value (the handlers test \<open>e instanceof Error\<close>).\<close>

datatype thrown = Error string | NonError string

definition message_or :: "thrown \<Rightarrow> string \<Rightarrow> string" where
  "message_or e fallback = (case e of Error m \<Rightarrow> m | NonError _ \<Rightarrow> fallback)"

section \<open>Remote store gateway (lib/supabase)\<close>

text \<open>
  The backing store is an external collaborator. What it answers during one call of a
  board operation is a parameter of the model: one field per request the gateway can
  send. A response \<open>{ data, error }\<close> is \<open>Inl error\<close> or \<open>Inr data\<close>; for the request
  that selects \<open>id, title, priority\<close> the data may be \<open>null\<close>.
\<close>

record supabase =
  auth_user :: "string option"
  insert_column_resp :: "thrown + column"
  select_columns_resp :: "thrown + column list"
  insert_task_resp :: "thrown + task"
  update_task_resp :: "thrown + task"
  delete_task_resp :: "thrown option"
  select_fields_resp :: "thrown + (string \<times> string \<times> priority) list option"
  upsert_tasks_resp :: "thrown option"
  select_tasks_resp :: "thrown + task list"

definition fetchColumns :: "supabase \<Rightarrow> thrown + column list" where
  "fetchColumns sb = select_columns_resp sb"

definition fetchTasks :: "supabase \<Rightarrow> thrown + task list" where
  "fetchTasks sb = select_tasks_resp sb"

definition createColumn :: "supabase \<Rightarrow> string \<Rightarrow> int \<Rightarrow> thrown + column" where
  "createColumn sb ttl pos =
     (case auth_user sb of
        None \<Rightarrow> Inl (Error ''Not authenticated'')
      | Some uid \<Rightarrow> insert_column_resp sb)"

definition createTask :: "supabase \<Rightarrow> string \<Rightarrow> string \<Rightarrow> priority \<Rightarrow> int \<Rightarrow> thrown + task" where
  "createTask sb ttl columnId prio pos =
     (case auth_user sb of
        None \<Rightarrow> Inl (Error ''Not authenticated'')
      | Some uid \<Rightarrow> insert_task_resp sb)"

definition updateTask :: "supabase \<Rightarrow> string \<Rightarrow> task_update \<Rightarrow> thrown + task" where
  "updateTask sb i updates = update_task_resp sb"

definition deleteTask :: "supabase \<Rightarrow> string \<Rightarrow> thrown option" where
  "deleteTask sb i = delete_task_resp sb"

text \<open>\<open>new Map(pairs)\<close> sets the pairs in order, so the last pair of a key wins.\<close>

definition js_Map :: "('k \<times> 'v) list \<Rightarrow> ('k \<rightharpoonup> 'v)" where
  "js_Map pairs = map_of (rev pairs)"

text \<open>A record of the upsert sent by \<open>updateTaskPositions\<close>. \<open>Map.get\<close> answers
  \<open>undefined\<close> for an unknown key, and a property that is \<open>undefined\<close> is left out of
  the request body: \<open>None\<close>.\<close>

record upsert_row =
  ur_id :: string
  ur_position :: int
  ur_column_id :: string
  ur_user_id :: string
  ur_title :: "string option"
  ur_priority :: "priority option"

text \<open>\<open>currentTasks?.map(f) ?? []\<close>: the rows of a response whose data may be \<open>null\<close>.\<close>

definition or_empty :: "'a list option \<Rightarrow> 'a list" where
  "or_empty xs = (case xs of None \<Rightarrow> [] | Some ys \<Rightarrow> ys)"

definition upsert_rows ::
  "string \<Rightarrow> (string \<times> string \<times> priority) list option \<Rightarrow> upd list \<Rightarrow> upsert_row list" where
  "upsert_rows uid currentTasks updates =
     (let taskTitles = js_Map (or_empty (map_option (map (\<lambda>(i, t, p). (i, t))) currentTasks));
          taskPriorities = js_Map (or_empty (map_option (map (\<lambda>(i, t, p). (i, p))) currentTasks))
      in map (\<lambda>u. \<lparr> ur_id = upd_id u, ur_position = upd_position u,
                     ur_column_id = upd_column_id u, ur_user_id = uid,
                     ur_title = taskTitles (upd_id u),
                     ur_priority = taskPriorities (upd_id u) \<rparr>) updates)"

text \<open>\<open>updateTaskPositions\<close>: the rows sent to the upsert (\<open>None\<close> when the call throws
  before the upsert is sent) and the value thrown (\<open>None\<close> when it returns).\<close>

definition updateTaskPositions ::
  "supabase \<Rightarrow> upd list \<Rightarrow> upsert_row list option \<times> thrown option" where
  "updateTaskPositions sb updates =
     (case auth_user sb of
        None \<Rightarrow> (None, Some (Error ''Not authenticated''))
      | Some uid \<Rightarrow>
          (case select_fields_resp sb of
             Inl fetchError \<Rightarrow> (None, Some fetchError)
           | Inr currentTasks \<Rightarrow>
               (Some (upsert_rows uid currentTasks updates), upsert_tasks_resp sb)))"

section \<open>Query hook (hooks/useSupabaseQuery)\<close>

record 'a query =
  data :: "'a list"
  loading :: bool
  query_error :: "thrown option"
  isMounted :: bool
  refreshCount :: nat

text \<open>
  \<open>fetchData\<close>, run to completion with the answer \<open>resp\<close> of the list query. The
  second component tells whether the list query was called at all, the third whether
  \<open>setData\<close> was called (the new array is a new reference, which is what the effects
  depending on \<open>data\<close> react to). Two lists have the same JSON text when they are
  equal; every caller passes \<open>true\<close> for \<open>forceRefresh\<close>.
\<close>

definition fetchData ::
  "bool \<Rightarrow> (thrown + 'a list) \<Rightarrow> 'a query \<Rightarrow> 'a query \<times> bool \<times> bool" where
  "fetchData forceRefresh resp q =
     (if \<not> isMounted q then (q, False, False)
      else (case resp of
              Inr result \<Rightarrow>
                (if forceRefresh \<or> result \<noteq> data q
                 then (q\<lparr> data := result, refreshCount := refreshCount q + 1,
                          query_error := None, loading := False \<rparr>, True, True)
                 else (q\<lparr> query_error := None, loading := False \<rparr>, True, False))
            | Inl e \<Rightarrow>
                (q\<lparr> query_error :=
                       Some (case e of Error m \<Rightarrow> Error m
                                     | NonError _ \<Rightarrow> Error ''An error occurred''),
                     loading := False \<rparr>, True, False)))"

section \<open>Board hook (hooks/useBoard)\<close>

text \<open>
  The state of the hook: its own two state variables and the two query hooks. An
  operation of the hook is an \<open>async\<close> function; the model runs one call to its end,
  given the answers of the store, and returns the board afterwards, the calls of the
  gateway in order, and the value thrown (\<open>None\<close> when the promise resolves). A state
  updater passed to \<open>setOptimisticTasks\<close> is a definition of its own, so that it can
  also be applied to a list other than the one the call started from. Other events
  that arrive while a call waits for the store are not part of a run.
\<close>

record board =
  error :: "string option"
  optimisticTasks :: "task list option"
  columnsQ :: "column query"
  tasksQ :: "task query"

definition columns :: "board \<Rightarrow> column list" where
  "columns b = data (columnsQ b)"

definition tasks :: "board \<Rightarrow> task list" where
  "tasks b = data (tasksQ b)"

datatype gw_call =
    CreateColumn string int
  | FetchColumns
  | FetchTasks
  | CreateTask string string priority int
  | UpdateTask string task_update
  | DeleteTask string
  | UpdateTaskPositions "upd list"

text \<open>\<open>Date.now()\<close> and \<open>new Date().toISOString()\<close> at the time of the call.\<close>

record clock =
  now_ms :: nat
  now_iso :: string

text \<open>The decimal text of a number, as a template literal prints \<open>Date.now()\<close>.\<close>

definition digit_char :: "nat \<Rightarrow> char" where
  "digit_char d = ''0123456789'' ! d"

fun string_of_nat :: "nat \<Rightarrow> string" where
  "string_of_nat n =
     (if 10 \<le> n then string_of_nat (n div 10) @ [digit_char (n mod 10)]
      else [digit_char n])"

declare string_of_nat.simps [simp del]

definition setOptimisticTasks :: "(task list option \<Rightarrow> task list option) \<Rightarrow> board \<Rightarrow> board" where
  "setOptimisticTasks f b = b\<lparr> optimisticTasks := f (optimisticTasks b) \<rparr>"

definition setError :: "string \<Rightarrow> board \<Rightarrow> board" where
  "setError m b = b\<lparr> error := Some m \<rparr>"

text \<open>The effect that follows the query data: \<open>if (tasks) setOptimisticTasks(tasks)\<close>.
  An array is truthy, also the empty one.\<close>

definition tasks_effect :: "board \<Rightarrow> board" where
  "tasks_effect b = setOptimisticTasks (\<lambda>_. Some (tasks b)) b"

text \<open>\<open>refetchTasks\<close> is \<open>fetchData(true)\<close> of the tasks query; the effect above runs
  when \<open>setData\<close> has given \<open>tasks\<close> a new reference. \<open>fetchData\<close> never throws.\<close>

definition refetchTasks :: "supabase \<Rightarrow> board \<Rightarrow> board \<times> gw_call list" where
  "refetchTasks sb b =
     (case fetchData True (fetchTasks sb) (tasksQ b) of
        (q', queried, changed) \<Rightarrow>
          (let b' = b\<lparr> tasksQ := q' \<rparr>
           in (if changed then tasks_effect b' else b',
               if queried then [FetchTasks] else [])))"

definition refetchColumns :: "supabase \<Rightarrow> board \<Rightarrow> board \<times> gw_call list" where
  "refetchColumns sb b =
     (case fetchData True (fetchColumns sb) (columnsQ b) of
        (q', queried, changed) \<Rightarrow>
          (b\<lparr> columnsQ := q' \<rparr>, if queried then [FetchColumns] else []))"

text \<open>\<open>Math.max(...xs)\<close>; \<open>None\<close> is the \<open>-Infinity\<close> of an empty argument list.\<close>

fun Math_max :: "int list \<Rightarrow> int option" where
  "Math_max [] = None"
| "Math_max (x # xs) = Some (fold max xs x)"

subsection \<open>Columns\<close>

text \<open>The position \<open>handleCreateColumn\<close> computes:
  \<open>columns ? Math.max(...columns.map(c => c.position), -1) + 1 : 0\<close>. With the \<open>-1\<close>
  appended the argument list of \<open>Math.max\<close> is never empty. The data of the query
  hook is always an array, and an array is truthy: the hook passes \<open>Some\<close>.\<close>

definition new_column_position :: "column list option \<Rightarrow> int" where
  "new_column_position cols =
     (case cols of
        Some cs \<Rightarrow>
          (case Math_max (map col_position cs @ [- 1]) of Some m \<Rightarrow> m + 1 | None \<Rightarrow> 0)
      | None \<Rightarrow> 0)"

definition handleCreateColumn ::
  "supabase \<Rightarrow> string \<Rightarrow> board \<Rightarrow> board \<times> gw_call list \<times> thrown option" where
  "handleCreateColumn sb ttl b =
     (let pos = new_column_position (Some (columns b))
      in case createColumn sb ttl pos of
           Inr created \<Rightarrow>
             (case refetchColumns sb b of (b', calls) \<Rightarrow> (b', CreateColumn ttl pos # calls, None))
         | Inl e \<Rightarrow>
             (setError (message_or e ''Failed to create column'') b, [CreateColumn ttl pos], Some e))"

subsection \<open>Creating a task\<close>

definition new_task_position :: "task list \<Rightarrow> string \<Rightarrow> int" where
  "new_task_position ots columnId =
     (let columnTasks = filter (\<lambda>t. column_id t = columnId) ots
      in if length columnTasks > 0
         then (case Math_max (map position columnTasks) of Some m \<Rightarrow> m + 1 | None \<Rightarrow> 0)
         else 0)"

definition tempId :: "clock \<Rightarrow> string" where
  "tempId clk = ''temp-'' @ string_of_nat (now_ms clk)"

definition tempTask :: "clock \<Rightarrow> string \<Rightarrow> string \<Rightarrow> priority \<Rightarrow> int \<Rightarrow> task" where
  "tempTask clk ttl columnId prio pos =
     \<lparr> task_id = tempId clk, title = ttl, priority = prio, column_id = columnId,
       position = pos, user_id = [], created_at = now_iso clk, updated_at = now_iso clk \<rparr>"

text \<open>The two state updaters of \<open>handleCreateTask\<close>: the optimistic insertion and the
  replacement of the temporary task by the created one.\<close>

definition create_optimistic :: "task \<Rightarrow> task list option \<Rightarrow> task list option" where
  "create_optimistic tmp prev = (case prev of Some p \<Rightarrow> Some (p @ [tmp]) | None \<Rightarrow> Some [tmp])"

definition create_commit :: "string \<Rightarrow> task \<Rightarrow> task list option \<Rightarrow> task list option" where
  "create_commit tid createdTask prev =
     (case prev of
        Some p \<Rightarrow> Some (map (\<lambda>t. if task_id t = tid then createdTask else t) p)
      | None \<Rightarrow> Some [createdTask])"

text \<open>The \<open>catch\<close> block shared by the five task operations: refetch, set the error,
  throw again.\<close>

definition on_failure ::
  "supabase \<Rightarrow> string \<Rightarrow> thrown \<Rightarrow> gw_call \<Rightarrow> board \<Rightarrow> board \<times> gw_call list \<times> thrown option" where
  "on_failure sb fallback e call b =
     (case refetchTasks sb b of
        (b', calls) \<Rightarrow> (setError (message_or e fallback) b', call # calls, Some e))"

definition handleCreateTask ::
  "clock \<Rightarrow> supabase \<Rightarrow> string \<Rightarrow> string \<Rightarrow> priority \<Rightarrow> board
     \<Rightarrow> board \<times> gw_call list \<times> thrown option" where
  "handleCreateTask clk sb ttl columnId prio b =
     (case optimisticTasks b of
        None \<Rightarrow> (b, [], None)
      | Some ots \<Rightarrow>
          (let pos = new_task_position ots columnId;
               b1 = setOptimisticTasks (create_optimistic (tempTask clk ttl columnId prio pos)) b
           in case createTask sb ttl columnId prio pos of
                Inr createdTask \<Rightarrow>
                  (setOptimisticTasks (create_commit (tempId clk) createdTask) b1,
                   [CreateTask ttl columnId prio pos], None)
              | Inl e \<Rightarrow>
                  on_failure sb ''Failed to create task'' e (CreateTask ttl columnId prio pos) b1))"

subsection \<open>Updating and deleting a task\<close>

text \<open>\<open>{ ...task, ...updates, updated_at: now }\<close>: a property present in \<open>updates\<close>
  replaces the one of the task.\<close>

definition spread_update :: "task \<Rightarrow> task_update \<Rightarrow> string \<Rightarrow> task" where
  "spread_update t updates now =
     t\<lparr> title := (case tu_title updates of Some x \<Rightarrow> x | None \<Rightarrow> title t),
        priority := (case tu_priority updates of Some x \<Rightarrow> x | None \<Rightarrow> priority t),
        column_id := (case tu_column_id updates of Some x \<Rightarrow> x | None \<Rightarrow> column_id t),
        position := (case tu_position updates of Some x \<Rightarrow> x | None \<Rightarrow> position t),
        updated_at := now \<rparr>"

definition update_optimistic ::
  "string \<Rightarrow> task_update \<Rightarrow> string \<Rightarrow> task list option \<Rightarrow> task list option" where
  "update_optimistic i updates now prev =
     (case prev of
        Some p \<Rightarrow> Some (map (\<lambda>t. if task_id t = i then spread_update t updates now else t) p)
      | None \<Rightarrow> None)"

definition handleUpdateTask ::
  "clock \<Rightarrow> supabase \<Rightarrow> string \<Rightarrow> task_update \<Rightarrow> board \<Rightarrow> board \<times> gw_call list \<times> thrown option" where
  "handleUpdateTask clk sb i updates b =
     (case optimisticTasks b of
        None \<Rightarrow> (b, [], None)
      | Some ots \<Rightarrow>
          (let b1 = setOptimisticTasks (update_optimistic i updates (now_iso clk)) b
           in case updateTask sb i updates of
                Inr updated \<Rightarrow> (b1, [UpdateTask i updates], None)
              | Inl e \<Rightarrow> on_failure sb ''Failed to update task'' e (UpdateTask i updates) b1))"

definition delete_optimistic :: "string \<Rightarrow> task list option \<Rightarrow> task list option" where
  "delete_optimistic i prev =
     (case prev of Some p \<Rightarrow> Some (filter (\<lambda>t. task_id t \<noteq> i) p) | None \<Rightarrow> None)"

definition handleDeleteTask ::
  "supabase \<Rightarrow> string \<Rightarrow> board \<Rightarrow> board \<times> gw_call list \<times> thrown option" where
  "handleDeleteTask sb i b =
     (case optimisticTasks b of
        None \<Rightarrow> (b, [], None)
      | Some ots \<Rightarrow>
          (let b1 = setOptimisticTasks (delete_optimistic i) b
           in case deleteTask sb i of
                None \<Rightarrow> (b1, [DeleteTask i], None)
              | Some e \<Rightarrow> on_failure sb ''Failed to delete task'' e (DeleteTask i) b1))"

subsection \<open>Moving a task and reordering a column\<close>

text \<open>The batch \<open>handleMoveTask\<close> builds: the other tasks of the target column, shifted
  where their position is at least the new one, then the moved task.\<close>

definition move_updates :: "task list \<Rightarrow> string \<Rightarrow> string \<Rightarrow> int \<Rightarrow> upd list" where
  "move_updates ots taskId newColumnId newPosition =
     (let columnTasks = filter (\<lambda>t. column_id t = newColumnId \<and> task_id t \<noteq> taskId) ots;
          updates = map (\<lambda>t. \<lparr> upd_id = task_id t,
                                 upd_position = (if position t \<ge> newPosition
                                                 then position t + 1 else position t),
                                 upd_column_id = newColumnId \<rparr>) columnTasks
      in updates @ [\<lparr> upd_id = taskId, upd_position = newPosition, upd_column_id = newColumnId \<rparr>])"

text \<open>The state updater shared by \<open>handleMoveTask\<close> and \<open>handleReorderTasks\<close>: each task
  takes position and column of the first update that carries its id.\<close>

definition apply_updates :: "upd list \<Rightarrow> string \<Rightarrow> task list option \<Rightarrow> task list option" where
  "apply_updates updates now prev =
     (case prev of
        None \<Rightarrow> None
      | Some p \<Rightarrow>
          Some (map (\<lambda>t. case find (\<lambda>u. upd_id u = task_id t) updates of
                            Some u \<Rightarrow> t\<lparr> position := upd_position u,
                                         column_id := upd_column_id u,
                                         updated_at := now \<rparr>
                          | None \<Rightarrow> t) p))"

definition handleMoveTask ::
  "clock \<Rightarrow> supabase \<Rightarrow> string \<Rightarrow> string \<Rightarrow> int \<Rightarrow> board \<Rightarrow> board \<times> gw_call list \<times> thrown option" where
  "handleMoveTask clk sb taskId newColumnId newPosition b =
     (case optimisticTasks b of
        None \<Rightarrow> (b, [], None)
      | Some ots \<Rightarrow>
          (case find (\<lambda>t. task_id t = taskId) ots of
             None \<Rightarrow> (b, [], None)
           | Some taskToMove \<Rightarrow>
               (let updates = move_updates ots taskId newColumnId newPosition;
                    b1 = setOptimisticTasks (apply_updates updates (now_iso clk)) b
                in case snd (updateTaskPositions sb updates) of
                     None \<Rightarrow> (b1, [UpdateTaskPositions updates], None)
                   | Some e \<Rightarrow>
                       on_failure sb ''Failed to move task'' e (UpdateTaskPositions updates) b1)))"

definition handleReorderTasks ::
  "clock \<Rightarrow> supabase \<Rightarrow> upd list \<Rightarrow> board \<Rightarrow> board \<times> gw_call list \<times> thrown option" where
  "handleReorderTasks clk sb updates b =
     (case optimisticTasks b of
        None \<Rightarrow> (b, [], None)
      | Some ots \<Rightarrow>
          (let b1 = setOptimisticTasks (apply_updates updates (now_iso clk)) b
           in case snd (updateTaskPositions sb updates) of
                None \<Rightarrow> (b1, [UpdateTaskPositions updates], None)
              | Some e \<Rightarrow>
                  on_failure sb ''Failed to reorder tasks'' e (UpdateTaskPositions updates) b1))"

subsection \<open>What the hook returns\<close>

text \<open>\<open>columns\<close> and \<open>tasks: optimisticTasks || tasks\<close>; an array is truthy, \<open>null\<close> is not.\<close>

definition useBoard_columns :: "board \<Rightarrow> column list" where
  "useBoard_columns b = columns b"

definition useBoard_tasks :: "board \<Rightarrow> task list" where
  "useBoard_tasks b = (case optimisticTasks b of Some w \<Rightarrow> w | None \<Rightarrow> tasks b)"

subsection \<open>The realtime handlers of the hook\<close>

text \<open>The payload of a change notification, as far as the handlers read it.\<close>

record change_payload =
  eventType :: string

definition columns_changes :: "change_payload \<Rightarrow> supabase \<Rightarrow> board \<Rightarrow> board \<times> gw_call list" where
  "columns_changes payload sb b = refetchColumns sb b"

definition tasks_changes :: "change_payload \<Rightarrow> supabase \<Rightarrow> board \<Rightarrow> board \<times> gw_call list" where
  "tasks_changes payload sb b =
     (let changeEvent = eventType payload
      in if changeEvent = ''INSERT'' \<or> changeEvent = ''UPDATE'' \<or> changeEvent = ''DELETE''
         then refetchTasks sb b
         else (b, []))"

section \<open>The subscription of the query hook\<close>

text \<open>
  One run of the subscribing effect of \<open>useSupabaseQuery\<close>: the state of the hook and the
  variable \<open>isSubscribed\<close> of the effect, which its cleanup sets to \<open>false\<close>. Each handler
  returns the number of calls of the list query it caused.
\<close>

record 'a subscription =
  sub_query :: "'a query"
  isSubscribed :: bool

definition run_fetchData :: "(thrown + 'a list) \<Rightarrow> 'a subscription \<Rightarrow> 'a subscription \<times> nat" where
  "run_fetchData resp s =
     (case fetchData True resp (sub_query s) of
        (q', queried, changed) \<Rightarrow> (s\<lparr> sub_query := q' \<rparr>, if queried then 1 else 0))"

text \<open>The effect itself: subscribe, then the initial fetch.\<close>

definition subscribe_effect :: "(thrown + 'a list) \<Rightarrow> 'a query \<Rightarrow> 'a subscription \<times> nat" where
  "subscribe_effect resp q = run_fetchData resp \<lparr> sub_query = q, isSubscribed = True \<rparr>"

definition on_status :: "string \<Rightarrow> (thrown + 'a list) \<Rightarrow> 'a subscription \<Rightarrow> 'a subscription \<times> nat" where
  "on_status status resp s =
     (if status = ''SUBSCRIBED'' \<and> isMounted (sub_query s) \<and> isSubscribed s
      then run_fetchData resp s else (s, 0))"

definition on_postgres_changes ::
  "change_payload \<Rightarrow> (thrown + 'a list) \<Rightarrow> 'a subscription \<Rightarrow> 'a subscription \<times> nat" where
  "on_postgres_changes payload resp s =
     (if isMounted (sub_query s) then run_fetchData resp s else (s, 0))"

definition effect_cleanup :: "'a subscription \<Rightarrow> 'a subscription" where
  "effect_cleanup s = s\<lparr> isSubscribed := False \<rparr>"

section \<open>Drag and drop (App, \<open>handleDragEnd\<close>)\<close>

text \<open>The identifier of a draggable or droppable element: \<open>string | number\<close>.\<close>

datatype unique_identifier = StringId string | NumberId int

fun findIndex :: "('a \<Rightarrow> bool) \<Rightarrow> 'a list \<Rightarrow> int" where
  "findIndex P [] = - 1"
| "findIndex P (x # xs) =
     (if P x then 0 else (let i = findIndex P xs in if i = - 1 then - 1 else i + 1))"

text \<open>\<open>xs.find(P)\<close> followed by an assignment to a field of the element found.\<close>

fun assign_first :: "('a \<Rightarrow> bool) \<Rightarrow> ('a \<Rightarrow> 'a) \<Rightarrow> 'a list \<Rightarrow> 'a list" where
  "assign_first P f [] = []"
| "assign_first P f (x # xs) = (if P x then f x # xs else x # assign_first P f xs)"

text \<open>The batch built when a task is dropped onto the task \<open>overTask\<close>: the tasks of the
  column of \<open>overTask\<close>, sorted by position (the sort of an array is stable), each with
  its index as position.\<close>

definition drop_updates :: "task list \<Rightarrow> task \<Rightarrow> task \<Rightarrow> upd list" where
  "drop_updates ts activeTask overTask =
     (let columnTasks = filter (\<lambda>t. column_id t = column_id overTask) ts;
          sortedTasks = sort_key position columnTasks;
          updates = map (\<lambda>(index, t). \<lparr> upd_id = task_id t, upd_position = int index,
                                          upd_column_id = column_id overTask \<rparr>)
                        (enumerate 0 sortedTasks)
      in if column_id activeTask \<noteq> column_id overTask
         then assign_first (\<lambda>u. upd_id u = task_id activeTask)
                (\<lambda>u. u\<lparr> upd_column_id := column_id overTask \<rparr>) updates
         else updates)"

text \<open>
  \<open>handleDragEnd\<close>, as far as it acts on the board. \<open>tasks\<close> is what the hook returns,
  \<open>moveTask\<close> and \<open>reorderTasks\<close> are \<open>handleMoveTask\<close> and \<open>handleReorderTasks\<close>. What
  they throw is caught and logged to the console; the hook returns no \<open>refetchTasks\<close>,
  so the \<open>catch\<close> block does nothing else.
\<close>

definition handleDragEnd ::
  "clock \<Rightarrow> supabase \<Rightarrow> unique_identifier \<Rightarrow> unique_identifier option \<Rightarrow> board
     \<Rightarrow> board \<times> gw_call list" where
  "handleDragEnd clk sb activeId over b =
     (let ts = useBoard_tasks b
      in case over of
           None \<Rightarrow> (b, [])
         | Some overId \<Rightarrow>
             (case find (\<lambda>t. StringId (task_id t) = activeId) ts of
                None \<Rightarrow> (b, [])
              | Some activeTask \<Rightarrow>
                  (case overId of
                     NumberId n \<Rightarrow> (b, [])
                   | StringId overStr \<Rightarrow>
                       (if \<not> list_ex (\<lambda>t. task_id t = overStr) ts
                        then (let columnId = overStr;
                                  columnTasks = filter (\<lambda>t. column_id t = columnId) ts;
                                  newPosition = int (length columnTasks)
                              in if column_id activeTask \<noteq> columnId
                                 then (case handleMoveTask clk sb (task_id activeTask) columnId
                                              newPosition b of
                                         (b', calls, e) \<Rightarrow> (b', calls))
                                 else (b, []))
                        else (case find (\<lambda>t. task_id t = overStr) ts of
                                None \<Rightarrow> (b, [])
                              | Some overTask \<Rightarrow>
                                  (let columnTasks = filter (\<lambda>t. column_id t = column_id overTask) ts;
                                       sortedTasks = sort_key position columnTasks;
                                       overIndex = findIndex (\<lambda>t. task_id t = task_id overTask) sortedTasks
                                   in if overIndex = - 1 then (b, [])
                                      else (case handleReorderTasks clk sb
                                                   (drop_updates ts activeTask overTask) b of
                                              (b', calls, e) \<Rightarrow> (b', calls))))))))"

text \<open>What the board shows in a column: \<open>getTasksByColumn\<close>.\<close>

definition getTasksByColumn :: "board \<Rightarrow> string \<Rightarrow> task list" where
  "getTasksByColumn b columnId =
     sort_key position (filter (\<lambda>t. column_id t = columnId) (useBoard_tasks b))"

section \<open>Boards and stores of the scenarios\<close>

definition mk_task :: "string \<Rightarrow> string \<Rightarrow> int \<Rightarrow> task" where
  "mk_task i c p =
     \<lparr> task_id = i, title = i, priority = medium, column_id = c, position = p,
       user_id = ''u1'', created_at = ''t0'', updated_at = ''t0'' \<rparr>"

definition mk_column :: "string \<Rightarrow> int \<Rightarrow> column" where
  "mk_column i p =
     \<lparr> col_id = i, col_title = i, col_position = p, col_user_id = ''u1'',
       col_created_at = ''t0'', col_updated_at = ''t0'' \<rparr>"

definition mk_query :: "'a list \<Rightarrow> 'a query" where
  "mk_query xs =
     \<lparr> data = xs, loading = False, query_error = None, isMounted = True, refreshCount = 1 \<rparr>"

text \<open>A mounted board whose working list is \<open>w\<close> and whose last fetched snapshots are
  \<open>cs\<close> and \<open>ts\<close>.\<close>

definition mk_board :: "column list \<Rightarrow> task list \<Rightarrow> task list option \<Rightarrow> board" where
  "mk_board cs ts w =
     \<lparr> error = None, optimisticTasks = w, columnsQ = mk_query cs, tasksQ = mk_query ts \<rparr>"

text \<open>A store that accepts every request and lists \<open>cs\<close> and \<open>ts\<close>; a store that is
  unreachable.\<close>

definition store_ok :: "column list \<Rightarrow> task list \<Rightarrow> supabase" where
  "store_ok cs ts =
     \<lparr> auth_user = Some ''u1'',
       insert_column_resp = Inr (mk_column ''c-new'' 0),
       select_columns_resp = Inr cs,
       insert_task_resp = Inr (mk_task ''t-new'' ''c1'' 0),
       update_task_resp = Inr (mk_task ''t-upd'' ''c1'' 0),
       delete_task_resp = None,
       select_fields_resp = Inr (Some (map (\<lambda>t. (task_id t, title t, priority t)) ts)),
       upsert_tasks_resp = None,
       select_tasks_resp = Inr ts \<rparr>"

definition store_down :: supabase where
  "store_down =
     \<lparr> auth_user = Some ''u1'',
       insert_column_resp = Inl (Error ''Failed to fetch''),
       select_columns_resp = Inl (Error ''Failed to fetch''),
       insert_task_resp = Inl (Error ''Failed to fetch''),
       update_task_resp = Inl (Error ''Failed to fetch''),
       delete_task_resp = Some (Error ''Failed to fetch''),
       select_fields_resp = Inl (Error ''Failed to fetch''),
       upsert_tasks_resp = Some (Error ''Failed to fetch''),
       select_tasks_resp = Inl (Error ''Failed to fetch'') \<rparr>"

definition clock0 :: clock where
  "clock0 = \<lparr> now_ms = 1700000000000, now_iso = ''t1'' \<rparr>"

text \<open>Scenario A: the column "To Do" with A, B, C at positions 0, 1, 2. Scenario B: A in
  "To Do", X and Y at positions 0 and 1 of "Done".\<close>

definition todo_ABC :: "task list" where
  "todo_ABC = [mk_task ''A'' ''To Do'' 0, mk_task ''B'' ''To Do'' 1, mk_task ''C'' ''To Do'' 2]"

definition board_A :: board where
  "board_A = mk_board [] todo_ABC (Some todo_ABC)"

definition done_XY :: "task list" where
  "done_XY = [mk_task ''A'' ''To Do'' 0, mk_task ''X'' ''Done'' 0, mk_task ''Y'' ''Done'' 1]"

definition board_B :: board where
  "board_B = mk_board [] done_XY (Some done_XY)"

section \<open>Properties\<close>

lemmas scenario_defs = mk_task_def mk_column_def mk_board_def mk_query_def store_ok_def
  store_down_def clock0_def todo_ABC_def board_A_def done_XY_def board_B_def

lemmas task_handler_defs = handleCreateTask_def handleUpdateTask_def handleDeleteTask_def
  handleMoveTask_def handleReorderTasks_def

subsection \<open>Reordering by drag and drop\<close>

text \<open>Whatever task is dragged, the batch built for a drop onto a task lists the column
  of that task in the order it already has.\<close>

lemma assign_first_id: "\<forall>x \<in> set xs. P x \<longrightarrow> f x = x \<Longrightarrow> assign_first P f xs = xs"
  by (induction xs) auto

lemma drop_updates_ignores_active:
  "drop_updates ts activeTask overTask =
     map (\<lambda>(index, t). \<lparr> upd_id = task_id t, upd_position = int index,
                           upd_column_id = column_id overTask \<rparr>)
       (enumerate 0 (sort_key position (filter (\<lambda>t. column_id t = column_id overTask) ts)))"
  unfolding drop_updates_def Let_def
  by (auto intro!: assign_first_id)

text \<open>\<open>handleReorderTasks\<close> forwards the batch it is given and applies it to the working
  list: handed C:0, A:1, B:2 it sends just that, and the column then reads C, A, B.\<close>

lemma reorder_forwards_batch:
  "optimisticTasks b = Some ots \<Longrightarrow>
     \<exists>calls. fst (snd (handleReorderTasks clk sb ups b)) = UpdateTaskPositions ups # calls"
  by (simp add: handleReorderTasks_def on_failure_def Let_def split: option.split prod.split)

lemma reorder_CAB_applies:
  "map task_id (getTasksByColumn
      (fst (handleReorderTasks clock0 (store_ok [] todo_ABC)
              [\<lparr> upd_id = ''C'', upd_position = 0, upd_column_id = ''To Do'' \<rparr>,
               \<lparr> upd_id = ''A'', upd_position = 1, upd_column_id = ''To Do'' \<rparr>,
               \<lparr> upd_id = ''B'', upd_position = 2, upd_column_id = ''To Do'' \<rparr>] board_A))
      ''To Do'') = [''C'', ''A'', ''B'']"
  by (simp add: scenario_defs handleReorderTasks_def useBoard_tasks_def apply_updates_def
      setOptimisticTasks_def updateTaskPositions_def getTasksByColumn_def Let_def)

text \<open>
  Claim C1, at the input of Scenario A. In the column "To Do" holding A, B, C at
  positions 0, 1, 2, the task C is dragged onto A, the intent being the order C, A, B.
  \<open>handleDragEnd\<close> sends the batch A:0, B:1, C:2 and the column, sorted by position,
  still reads A, B, C: the index of the task dropped onto is computed but never used.
\<close>

theorem drag_C_onto_A_keeps_ABC:
  "snd (handleDragEnd clock0 (store_ok [] todo_ABC) (StringId ''C'') (Some (StringId ''A'')) board_A)
     = [UpdateTaskPositions
          [\<lparr> upd_id = ''A'', upd_position = 0, upd_column_id = ''To Do'' \<rparr>,
           \<lparr> upd_id = ''B'', upd_position = 1, upd_column_id = ''To Do'' \<rparr>,
           \<lparr> upd_id = ''C'', upd_position = 2, upd_column_id = ''To Do'' \<rparr>]]
   \<and> map task_id (getTasksByColumn
          (fst (handleDragEnd clock0 (store_ok [] todo_ABC) (StringId ''C'')
                  (Some (StringId ''A'')) board_A)) ''To Do'')
     = [''A'', ''B'', ''C'']"
  by (simp add: scenario_defs handleDragEnd_def handleReorderTasks_def useBoard_tasks_def
        drop_updates_def apply_updates_def setOptimisticTasks_def updateTaskPositions_def
        getTasksByColumn_def Let_def)

subsection \<open>Operations before the cache is filled\<close>

text \<open>
  Claim C10. While \<open>optimisticTasks\<close> is \<open>null\<close>, each of the five task operations
  returns at once: the board is unchanged, nothing is sent to the gateway, nothing is
  thrown. \<open>handleMoveTask\<close> does the same when the cache holds no task with the given id.
\<close>

theorem null_cache_is_noop:
  "(optimisticTasks b = None \<longrightarrow>
      handleCreateTask clk sb ttl columnId prio b = (b, [], None) \<and>
      handleUpdateTask clk sb i updates b = (b, [], None) \<and>
      handleDeleteTask sb i b = (b, [], None) \<and>
      handleMoveTask clk sb taskId newColumnId newPosition b = (b, [], None) \<and>
      handleReorderTasks clk sb ups b = (b, [], None))
   \<and> (\<forall>ots. optimisticTasks b = Some ots \<and> find (\<lambda>t. task_id t = taskId) ots = None \<longrightarrow>
      handleMoveTask clk sb taskId newColumnId newPosition b = (b, [], None))"
  by (simp add: task_handler_defs)

theorem null_cache_is_noop_witness:
  "optimisticTasks (mk_board [] [] None) = None
   \<and> handleCreateTask clock0 store_down ''t'' ''To Do'' low (mk_board [] [] None)
       = (mk_board [] [] None, [], None)
   \<and> handleUpdateTask clock0 store_down ''A'' \<lparr> tu_title = Some ''t'', tu_priority = None,
         tu_column_id = None, tu_position = None \<rparr> (mk_board [] [] None)
       = (mk_board [] [] None, [], None)
   \<and> handleDeleteTask store_down ''A'' (mk_board [] [] None) = (mk_board [] [] None, [], None)
   \<and> handleMoveTask clock0 store_down ''A'' ''Done'' 1 (mk_board [] [] None)
       = (mk_board [] [] None, [], None)
   \<and> handleReorderTasks clock0 store_down [] (mk_board [] [] None)
       = (mk_board [] [] None, [], None)
   \<and> optimisticTasks board_A = Some todo_ABC
   \<and> find (\<lambda>t. task_id t = ''Z'') todo_ABC = None
   \<and> handleMoveTask clock0 store_down ''Z'' ''Done'' 1 board_A = (board_A, [], None)"
proof -
  have n: "optimisticTasks (mk_board [] [] None) = None"
    by (simp add: mk_board_def)
  have s: "optimisticTasks board_A = Some todo_ABC \<and> find (\<lambda>t. task_id t = ''Z'') todo_ABC = None"
    by (simp add: scenario_defs)
  show ?thesis
    using n s
      null_cache_is_noop [of "mk_board [] [] None" clock0 store_down "''t''" "''To Do''" low
        "''A''" "\<lparr> tu_title = Some ''t'', tu_priority = None, tu_column_id = None, tu_position = None \<rparr>"
        "''A''" "''Done''" 1 "[]"]
      null_cache_is_noop [of board_A clock0 store_down "''t''" "''To Do''" low
        "''A''" "\<lparr> tu_title = None, tu_priority = None, tu_column_id = None, tu_position = None \<rparr>"
        "''Z''" "''Done''" 1 "[]"]
    by simp
qed

subsection \<open>Replacing the temporary task\<close>

text \<open>
  Claim C7. The updater that replaces the temporary task by the task the server
  created maps over the working list. When no task of the list carries the temporary
  id the list comes back as it is: nothing is thrown and the created task is not put
  in. When the task at an index carries the temporary id, the created task stands at
  that index afterwards, the length is the same and every task with another id stays.
\<close>

theorem commit_replaces_in_place:
  "(tid \<notin> task_id ` set p \<longrightarrow> create_commit tid srv (Some p) = Some p)
   \<and> (\<forall>i. i < length p \<and> task_id (p ! i) = tid \<longrightarrow>
        (\<exists>p'. create_commit tid srv (Some p) = Some p' \<and> length p' = length p \<and> p' ! i = srv
           \<and> (\<forall>j < length p. task_id (p ! j) \<noteq> tid \<longrightarrow> p' ! j = p ! j)))"
proof -
  have absent: "tid \<notin> task_id ` set p \<Longrightarrow> map (\<lambda>t. if task_id t = tid then srv else t) p = p"
    by (induction p) auto
  show ?thesis
    by (simp add: create_commit_def absent)
qed

theorem commit_replaces_in_place_witness:
  "''temp-1'' \<notin> task_id ` set todo_ABC
   \<and> create_commit ''temp-1'' (mk_task ''S'' ''To Do'' 3) (Some todo_ABC) = Some todo_ABC
   \<and> (1::nat) < length [mk_task ''A'' ''To Do'' 0, mk_task ''temp-1'' ''To Do'' 1, mk_task ''B'' ''To Do'' 2]
   \<and> task_id ([mk_task ''A'' ''To Do'' 0, mk_task ''temp-1'' ''To Do'' 1, mk_task ''B'' ''To Do'' 2] ! 1) = ''temp-1''
   \<and> create_commit ''temp-1'' (mk_task ''S'' ''To Do'' 1)
        (Some [mk_task ''A'' ''To Do'' 0, mk_task ''temp-1'' ''To Do'' 1, mk_task ''B'' ''To Do'' 2])
      = Some [mk_task ''A'' ''To Do'' 0, mk_task ''S'' ''To Do'' 1, mk_task ''B'' ''To Do'' 2]"
  using commit_replaces_in_place [of "''temp-1''" todo_ABC "mk_task ''S'' ''To Do'' 3"]
    commit_replaces_in_place [of "''temp-1''"
      "[mk_task ''A'' ''To Do'' 0, mk_task ''temp-1'' ''To Do'' 1, mk_task ''B'' ''To Do'' 2]"
      "mk_task ''S'' ''To Do'' 1"]
  by (simp add: scenario_defs create_commit_def)

subsection \<open>Positions of new columns and tasks\<close>

lemma Math_max_Some: "xs \<noteq> [] \<Longrightarrow> Math_max xs = Some (Max (set xs))"
proof (cases xs)
  case Nil
  then show "xs \<noteq> [] \<Longrightarrow> ?thesis" by simp
next
  case (Cons x ys)
  have "fold max ys x = Max (set (x # ys))"
    by (rule Max.set_eq_fold [symmetric])
  with Cons show ?thesis by simp
qed

lemma new_column_position_Max:
  "cs \<noteq> [] \<Longrightarrow> new_column_position (Some cs) = max (Max (set (map col_position cs))) (- 1) + 1"
proof -
  assume ne: "cs \<noteq> []"
  have "Math_max (map col_position cs @ [- 1]) = Some (Max (set (map col_position cs @ [- 1])))"
    by (rule Math_max_Some) simp
  also have "Max (set (map col_position cs @ [- 1])) = max (Max (set (map col_position cs))) (- 1)"
    using ne by (simp add: max.commute)
  finally show ?thesis
    by (simp add: new_column_position_def)
qed

lemma new_task_position_Max:
  "filter (\<lambda>t. column_id t = c) ots \<noteq> [] \<Longrightarrow>
     new_task_position ots c = Max (set (map position (filter (\<lambda>t. column_id t = c) ots))) + 1"
  by (simp add: new_task_position_def Math_max_Some)

text \<open>
  Claim C8 fails for columns whose positions are all below \<open>-1\<close>: with one column at
  position \<open>-5\<close> the new column is created at position 0, where the maximum plus one
  is \<open>-4\<close>.
\<close>

theorem new_column_floor_counterexample:
  "fst (snd (handleCreateColumn (store_ok [mk_column ''c1'' (- 5)] []) ''New Column''
               (mk_board [mk_column ''c1'' (- 5)] [] (Some []))))
     = [CreateColumn ''New Column'' 0, FetchColumns]
   \<and> Max (set (map col_position [mk_column ''c1'' (- 5)])) + 1 = - 4"
  by (simp add: scenario_defs handleCreateColumn_def new_column_position_def columns_def
      createColumn_def refetchColumns_def fetchData_def fetchColumns_def)

text \<open>
  Claim C8, amended. \<open>handleCreateColumn\<close> creates the column at
  \<open>max (maximum existing position) (-1) + 1\<close>: 0 when there is no column, the maximum
  plus one when the maximum is at least \<open>-1\<close>. \<open>handleCreateTask\<close> creates the task at
  the maximum position of the tasks of the destination column plus one, and at 0 when
  that column has no task.
\<close>

theorem creation_positions:
  "(\<exists>calls. fst (snd (handleCreateColumn sb ttl b))
              = CreateColumn ttl (new_column_position (Some (columns b))) # calls)
   \<and> new_column_position (Some []) = 0
   \<and> (cs \<noteq> [] \<longrightarrow> new_column_position (Some cs) = max (Max (set (map col_position cs))) (- 1) + 1)
   \<and> (cs \<noteq> [] \<and> - 1 \<le> Max (set (map col_position cs)) \<longrightarrow>
        new_column_position (Some cs) = Max (set (map col_position cs)) + 1)
   \<and> (optimisticTasks b = Some ots \<longrightarrow>
        (\<exists>calls. fst (snd (handleCreateTask clk sb ttl columnId prio b))
                  = CreateTask ttl columnId prio (new_task_position ots columnId) # calls))
   \<and> (filter (\<lambda>t. column_id t = columnId) ots = [] \<longrightarrow> new_task_position ots columnId = 0)
   \<and> (filter (\<lambda>t. column_id t = columnId) ots \<noteq> [] \<longrightarrow>
        new_task_position ots columnId
          = Max (set (map position (filter (\<lambda>t. column_id t = columnId) ots))) + 1)"
proof -
  have c1: "\<exists>calls. fst (snd (handleCreateColumn sb ttl b))
              = CreateColumn ttl (new_column_position (Some (columns b))) # calls"
    by (simp add: handleCreateColumn_def Let_def split: sum.split prod.split)
  have c2: "new_column_position (Some []) = 0"
    by (simp add: new_column_position_def)
  have c5: "optimisticTasks b = Some ots \<longrightarrow>
        (\<exists>calls. fst (snd (handleCreateTask clk sb ttl columnId prio b))
                  = CreateTask ttl columnId prio (new_task_position ots columnId) # calls)"
    by (simp add: handleCreateTask_def on_failure_def Let_def split: sum.split prod.split)
  have c6: "filter (\<lambda>t. column_id t = columnId) ots = [] \<longrightarrow> new_task_position ots columnId = 0"
    by (simp add: new_task_position_def)
  show ?thesis
    using c1 c2 c5 c6 new_column_position_Max [of cs] new_task_position_Max [of columnId ots]
    by simp
qed

theorem creation_positions_witness:
  "fst (snd (handleCreateColumn (store_ok [mk_column ''c-new'' 0] []) ''New Column''
               (mk_board [] [] (Some []))))
     = [CreateColumn ''New Column'' 0, FetchColumns]
   \<and> columns (fst (handleCreateColumn (store_ok [mk_column ''c-new'' 0] []) ''New Column''
               (mk_board [] [] (Some [])))) = [mk_column ''c-new'' 0]
   \<and> [mk_column ''c-new'' 0] \<noteq> []
   \<and> - 1 \<le> Max (set (map col_position [mk_column ''c-new'' 0]))
   \<and> new_column_position (Some [mk_column ''c-new'' 0]) = 1
   \<and> new_column_position (Some [mk_column ''c1'' 3, mk_column ''c2'' 7, mk_column ''c3'' 5]) = 8
   \<and> optimisticTasks board_B = Some done_XY
   \<and> fst (snd (handleCreateTask clock0 (store_ok [] done_XY) ''t'' ''Done'' low board_B))
       = [CreateTask ''t'' ''Done'' low 2]
   \<and> filter (\<lambda>t. column_id t = ''Done'') done_XY \<noteq> []
   \<and> new_task_position done_XY ''Done'' = 2
   \<and> filter (\<lambda>t. column_id t = ''Later'') done_XY = []
   \<and> new_task_position done_XY ''Later'' = 0"
proof -
  have m1: "Max (set (map col_position [mk_column ''c-new'' 0])) = 0"
    by (simp add: mk_column_def)
  have m2: "Max (set (map col_position [mk_column ''c1'' 3, mk_column ''c2'' 7, mk_column ''c3'' 5])) = 7"
    by (simp add: mk_column_def)
  have m3: "Max (set (map position (filter (\<lambda>t. column_id t = ''Done'') done_XY))) = 1"
    by (simp add: scenario_defs)
  have f1: "filter (\<lambda>t. column_id t = ''Done'') done_XY \<noteq> []"
    by (simp add: scenario_defs)
  have f2: "filter (\<lambda>t. column_id t = ''Later'') done_XY = []"
    by (simp add: scenario_defs)
  have o: "optimisticTasks board_B = Some done_XY"
    by (simp add: scenario_defs)
  have h1: "fst (snd (handleCreateColumn (store_ok [mk_column ''c-new'' 0] []) ''New Column''
               (mk_board [] [] (Some []))))
     = [CreateColumn ''New Column'' 0, FetchColumns]
   \<and> columns (fst (handleCreateColumn (store_ok [mk_column ''c-new'' 0] []) ''New Column''
               (mk_board [] [] (Some [])))) = [mk_column ''c-new'' 0]"
    by (simp add: scenario_defs handleCreateColumn_def new_column_position_def columns_def
        createColumn_def refetchColumns_def fetchData_def fetchColumns_def)
  have h2: "\<exists>calls. fst (snd (handleCreateTask clock0 (store_ok [] done_XY) ''t'' ''Done'' low board_B))
       = CreateTask ''t'' ''Done'' low 2 # calls \<Longrightarrow>
      fst (snd (handleCreateTask clock0 (store_ok [] done_XY) ''t'' ''Done'' low board_B))
       = [CreateTask ''t'' ''Done'' low 2]"
    by (simp add: handleCreateTask_def on_failure_def createTask_def store_ok_def Let_def o)
  note t1 = creation_positions [where sb = "store_ok [mk_column ''c-new'' 0] []" and ttl = "''New Column''"
          and b = "mk_board [] [] (Some [])" and cs = "[mk_column ''c-new'' 0]" and ots = done_XY
          and clk = clock0 and columnId = "''Later''" and prio = low]
  note t2 = creation_positions [where sb = "store_ok [] done_XY" and ttl = "''t''" and b = board_B
          and cs = "[mk_column ''c1'' 3, mk_column ''c2'' 7, mk_column ''c3'' 5]" and ots = done_XY
          and clk = clock0 and columnId = "''Done''" and prio = low]
  have p1: "new_column_position (Some [mk_column ''c-new'' 0]) = 1"
    using t1 m1 by simp
  have p2: "new_column_position (Some [mk_column ''c1'' 3, mk_column ''c2'' 7, mk_column ''c3'' 5]) = 8"
    using t2 m2 by simp
  have p3: "new_task_position done_XY ''Later'' = 0"
    using t1 f2 by simp
  have p4: "new_task_position done_XY ''Done'' = 2"
    using t2 f1 m3 by simp
  have p5: "\<exists>calls. fst (snd (handleCreateTask clock0 (store_ok [] done_XY) ''t'' ''Done'' low board_B))
       = CreateTask ''t'' ''Done'' low 2 # calls"
    using t2 o p4 by simp
  show ?thesis
    using m1 f1 f2 o h1 h2 [OF p5] p1 p2 p3 p4 by simp
qed

subsection \<open>Moving a task\<close>

text \<open>
  Claim C3. When the cache holds the task \<open>taskId\<close>, \<open>handleMoveTask\<close> passes to the
  gateway one batch: for every other task of the destination column \<open>C\<close> one update,
  with the position plus one when it is at least \<open>P\<close> and with the position unchanged
  when it is below \<open>P\<close>, and last the update of the moved task with position \<open>P\<close>;
  every update of the batch names column \<open>C\<close>. The witness is Scenario B.
\<close>

theorem move_shifts_target_column:
  "optimisticTasks b = Some ots \<and> find (\<lambda>t. task_id t = taskId) ots = Some taskToMove \<longrightarrow>
     (\<exists>calls. fst (snd (handleMoveTask clk sb taskId C P b))
                = UpdateTaskPositions (move_updates ots taskId C P) # calls)
     \<and> (\<forall>t \<in> set ots. column_id t = C \<and> task_id t \<noteq> taskId \<and> P \<le> position t \<longrightarrow>
           \<lparr> upd_id = task_id t, upd_position = position t + 1, upd_column_id = C \<rparr>
             \<in> set (move_updates ots taskId C P))
     \<and> (\<forall>t \<in> set ots. column_id t = C \<and> task_id t \<noteq> taskId \<and> position t < P \<longrightarrow>
           \<lparr> upd_id = task_id t, upd_position = position t, upd_column_id = C \<rparr>
             \<in> set (move_updates ots taskId C P))
     \<and> last (move_updates ots taskId C P)
          = \<lparr> upd_id = taskId, upd_position = P, upd_column_id = C \<rparr>
     \<and> (\<forall>u \<in> set (move_updates ots taskId C P). upd_column_id u = C)
     \<and> map upd_id (move_updates ots taskId C P)
          = map task_id (filter (\<lambda>t. column_id t = C \<and> task_id t \<noteq> taskId) ots) @ [taskId]"
proof -
  have calls: "optimisticTasks b = Some ots \<and> find (\<lambda>t. task_id t = taskId) ots = Some taskToMove \<Longrightarrow>
     \<exists>calls. fst (snd (handleMoveTask clk sb taskId C P b))
                = UpdateTaskPositions (move_updates ots taskId C P) # calls"
    by (simp add: handleMoveTask_def on_failure_def Let_def split: option.split prod.split)
  have up: "\<forall>t \<in> set ots. column_id t = C \<and> task_id t \<noteq> taskId \<and> P \<le> position t \<longrightarrow>
           \<lparr> upd_id = task_id t, upd_position = position t + 1, upd_column_id = C \<rparr>
             \<in> set (move_updates ots taskId C P)"
    by (force simp: move_updates_def)
  have keep: "\<forall>t \<in> set ots. column_id t = C \<and> task_id t \<noteq> taskId \<and> position t < P \<longrightarrow>
           \<lparr> upd_id = task_id t, upd_position = position t, upd_column_id = C \<rparr>
             \<in> set (move_updates ots taskId C P)"
    by (force simp: move_updates_def)
  have rest: "last (move_updates ots taskId C P)
          = \<lparr> upd_id = taskId, upd_position = P, upd_column_id = C \<rparr>
     \<and> (\<forall>u \<in> set (move_updates ots taskId C P). upd_column_id u = C)
     \<and> map upd_id (move_updates ots taskId C P)
          = map task_id (filter (\<lambda>t. column_id t = C \<and> task_id t \<noteq> taskId) ots) @ [taskId]"
    by (auto simp: move_updates_def comp_def)
  show ?thesis
    using calls up keep rest by blast
qed

theorem move_shifts_target_column_witness:
  "optimisticTasks board_B = Some done_XY
   \<and> find (\<lambda>t. task_id t = ''A'') done_XY = Some (mk_task ''A'' ''To Do'' 0)
   \<and> fst (snd (handleMoveTask clock0 (store_ok [] done_XY) ''A'' ''Done'' 1 board_B))
      = [UpdateTaskPositions
           [\<lparr> upd_id = ''X'', upd_position = 0, upd_column_id = ''Done'' \<rparr>,
            \<lparr> upd_id = ''Y'', upd_position = 2, upd_column_id = ''Done'' \<rparr>,
            \<lparr> upd_id = ''A'', upd_position = 1, upd_column_id = ''Done'' \<rparr>]]"
proof -
  have h: "optimisticTasks board_B = Some done_XY
     \<and> find (\<lambda>t. task_id t = ''A'') done_XY = Some (mk_task ''A'' ''To Do'' 0)"
    by (simp add: scenario_defs)
  have m: "move_updates done_XY ''A'' ''Done'' 1
     = [\<lparr> upd_id = ''X'', upd_position = 0, upd_column_id = ''Done'' \<rparr>,
        \<lparr> upd_id = ''Y'', upd_position = 2, upd_column_id = ''Done'' \<rparr>,
        \<lparr> upd_id = ''A'', upd_position = 1, upd_column_id = ''Done'' \<rparr>]"
    by (simp add: scenario_defs move_updates_def)
  have one: "length (fst (snd (handleMoveTask clock0 (store_ok [] done_XY) ''A'' ''Done'' 1 board_B))) = 1"
    by (simp add: handleMoveTask_def updateTaskPositions_def store_ok_def h Let_def)
  from move_shifts_target_column [of board_B done_XY "''A''" "mk_task ''A'' ''To Do'' 0"
      clock0 "store_ok [] done_XY" "''Done''" 1] h
  obtain calls where c: "fst (snd (handleMoveTask clock0 (store_ok [] done_XY) ''A'' ''Done'' 1 board_B))
      = UpdateTaskPositions (move_updates done_XY ''A'' ''Done'' 1) # calls"
    by blast
  with one have "calls = []" by simp
  with c m h show ?thesis by simp
qed

subsection \<open>The rows of a position batch\<close>

lemma map_of_rows:
  "map_of (map (\<lambda>(i, t, p). (i, g t p)) xs) k
     = map_option (\<lambda>(i, t, p). g t p) (find (\<lambda>r. fst r = k) xs)"
  by (induction xs) auto

lemma js_Map_rows:
  "js_Map (map (\<lambda>(i, t, p). (i, g t p)) rows) k
     = map_option (\<lambda>(i, t, p). g t p) (find (\<lambda>r. fst r = k) (rev rows))"
  by (simp only: js_Map_def rev_map map_of_rows)

lemma find_fst_None: "k \<notin> fst ` set xs \<Longrightarrow> find (\<lambda>r. fst r = k) xs = None"
  by (induction xs) auto

lemma find_fst_Some:
  "k \<in> fst ` set xs \<Longrightarrow> \<exists>t p. find (\<lambda>r. fst r = k) xs = Some (k, t, p) \<and> (k, t, p) \<in> set xs"
  by (induction xs) auto

lemma upsert_rows_nth:
  assumes "k < length updates"
  shows "upsert_rows uid cur updates ! k =
     \<lparr> ur_id = upd_id (updates ! k), ur_position = upd_position (updates ! k),
       ur_column_id = upd_column_id (updates ! k), ur_user_id = uid,
       ur_title = map_option (\<lambda>(i, t, p). t) (find (\<lambda>r. fst r = upd_id (updates ! k)) (rev (or_empty cur))),
       ur_priority = map_option (\<lambda>(i, t, p). p) (find (\<lambda>r. fst r = upd_id (updates ! k)) (rev (or_empty cur))) \<rparr>"
proof (cases cur)
  case None
  with assms show ?thesis
    by (simp add: upsert_rows_def or_empty_def js_Map_def)
next
  case (Some rows)
  with assms show ?thesis
    using js_Map_rows [of "\<lambda>t p. t" rows] js_Map_rows [of "\<lambda>t p. p" rows]
    by (simp add: upsert_rows_def or_empty_def)
qed

text \<open>
  Claim C5 fails for an update whose id the lookup does not return. The cache still
  holds B, which another client has deleted: the store lists A only, and the row sent
  for B carries neither title nor priority.
\<close>

theorem deleted_row_counterexample:
  "fst (updateTaskPositions (store_ok [] [mk_task ''A'' ''To Do'' 0])
          [\<lparr> upd_id = ''A'', upd_position = 1, upd_column_id = ''To Do'' \<rparr>,
           \<lparr> upd_id = ''B'', upd_position = 0, upd_column_id = ''To Do'' \<rparr>])
     = Some [\<lparr> ur_id = ''A'', ur_position = 1, ur_column_id = ''To Do'', ur_user_id = ''u1'',
               ur_title = Some ''A'', ur_priority = Some medium \<rparr>,
             \<lparr> ur_id = ''B'', ur_position = 0, ur_column_id = ''To Do'', ur_user_id = ''u1'',
               ur_title = None, ur_priority = None \<rparr>]"
  by (simp add: updateTaskPositions_def upsert_rows_def or_empty_def js_Map_def scenario_defs)

text \<open>
  Claim C5, amended. When the caller is authenticated and the lookup succeeds, the
  upsert is sent with one row per update, in order, carrying id, position and column
  of the update and the id of the caller. For an update whose id is among the rows
  the lookup returned, the row carries title and priority of such a row; for any other
  id both are left out.
\<close>

theorem position_batch_rows:
  "auth_user sb = Some uid \<and> select_fields_resp sb = Inr cur \<longrightarrow>
     updateTaskPositions sb updates = (Some (upsert_rows uid cur updates), upsert_tasks_resp sb)
     \<and> length (upsert_rows uid cur updates) = length updates
     \<and> (\<forall>k < length updates.
           ur_id (upsert_rows uid cur updates ! k) = upd_id (updates ! k)
         \<and> ur_position (upsert_rows uid cur updates ! k) = upd_position (updates ! k)
         \<and> ur_column_id (upsert_rows uid cur updates ! k) = upd_column_id (updates ! k)
         \<and> ur_user_id (upsert_rows uid cur updates ! k) = uid
         \<and> (upd_id (updates ! k) \<in> fst ` set (or_empty cur) \<longrightarrow>
              (\<exists>t p. (upd_id (updates ! k), t, p) \<in> set (or_empty cur)
                 \<and> ur_title (upsert_rows uid cur updates ! k) = Some t
                 \<and> ur_priority (upsert_rows uid cur updates ! k) = Some p))
         \<and> (upd_id (updates ! k) \<notin> fst ` set (or_empty cur) \<longrightarrow>
              ur_title (upsert_rows uid cur updates ! k) = None
            \<and> ur_priority (upsert_rows uid cur updates ! k) = None))"
proof -
  have len: "length (upsert_rows uid cur updates) = length updates"
    by (simp add: upsert_rows_def)
  have row: "ur_id (upsert_rows uid cur updates ! k) = upd_id (updates ! k)
         \<and> ur_position (upsert_rows uid cur updates ! k) = upd_position (updates ! k)
         \<and> ur_column_id (upsert_rows uid cur updates ! k) = upd_column_id (updates ! k)
         \<and> ur_user_id (upsert_rows uid cur updates ! k) = uid
         \<and> (upd_id (updates ! k) \<in> fst ` set (or_empty cur) \<longrightarrow>
              (\<exists>t p. (upd_id (updates ! k), t, p) \<in> set (or_empty cur)
                 \<and> ur_title (upsert_rows uid cur updates ! k) = Some t
                 \<and> ur_priority (upsert_rows uid cur updates ! k) = Some p))
         \<and> (upd_id (updates ! k) \<notin> fst ` set (or_empty cur) \<longrightarrow>
              ur_title (upsert_rows uid cur updates ! k) = None
            \<and> ur_priority (upsert_rows uid cur updates ! k) = None)"
    if k: "k < length updates" for k
  proof -
    let ?i = "upd_id (updates ! k)"
    have absent: "?i \<notin> fst ` set (or_empty cur) \<Longrightarrow>
        find (\<lambda>r. fst r = ?i) (rev (or_empty cur)) = None"
      using find_fst_None [of ?i "rev (or_empty cur)"] by simp
    have present: "?i \<in> fst ` set (or_empty cur) \<Longrightarrow>
        \<exists>t p. find (\<lambda>r. fst r = ?i) (rev (or_empty cur)) = Some (?i, t, p)
           \<and> (?i, t, p) \<in> set (or_empty cur)"
      using find_fst_Some [of ?i "rev (or_empty cur)"] by simp
    show ?thesis
      unfolding upsert_rows_nth [OF k]
      using absent present by auto
  qed
  show ?thesis
    using len row by (simp add: updateTaskPositions_def)
qed

theorem position_batch_rows_witness:
  "auth_user (store_ok [] todo_ABC) = Some ''u1''
   \<and> select_fields_resp (store_ok [] todo_ABC)
       = Inr (Some [(''A'', ''A'', medium), (''B'', ''B'', medium), (''C'', ''C'', medium)])
   \<and> ''C'' \<in> fst ` set (or_empty (Some [(''A'', ''A'', medium), (''B'', ''B'', medium), (''C'', ''C'', medium)]))
   \<and> ''Z'' \<notin> fst ` set (or_empty (Some [(''A'', ''A'', medium), (''B'', ''B'', medium), (''C'', ''C'', medium)]))
   \<and> updateTaskPositions (store_ok [] todo_ABC)
        [\<lparr> upd_id = ''C'', upd_position = 0, upd_column_id = ''To Do'' \<rparr>,
         \<lparr> upd_id = ''A'', upd_position = 1, upd_column_id = ''To Do'' \<rparr>,
         \<lparr> upd_id = ''Z'', upd_position = 2, upd_column_id = ''To Do'' \<rparr>]
      = (Some [\<lparr> ur_id = ''C'', ur_position = 0, ur_column_id = ''To Do'', ur_user_id = ''u1'',
                 ur_title = Some ''C'', ur_priority = Some medium \<rparr>,
               \<lparr> ur_id = ''A'', ur_position = 1, ur_column_id = ''To Do'', ur_user_id = ''u1'',
                 ur_title = Some ''A'', ur_priority = Some medium \<rparr>,
               \<lparr> ur_id = ''Z'', ur_position = 2, ur_column_id = ''To Do'', ur_user_id = ''u1'',
                 ur_title = None, ur_priority = None \<rparr>], None)"
proof -
  let ?rows = "[(''A'', ''A'', medium), (''B'', ''B'', medium), (''C'', ''C'', medium)]"
  let ?ups = "[\<lparr> upd_id = ''C'', upd_position = 0, upd_column_id = ''To Do'' \<rparr>,
         \<lparr> upd_id = ''A'', upd_position = 1, upd_column_id = ''To Do'' \<rparr>,
         \<lparr> upd_id = ''Z'', upd_position = 2, upd_column_id = ''To Do'' \<rparr>]"
  have h: "auth_user (store_ok [] todo_ABC) = Some ''u1''
     \<and> select_fields_resp (store_ok [] todo_ABC) = Inr (Some ?rows)"
    by (simp add: scenario_defs)
  have m: "''C'' \<in> fst ` set (or_empty (Some ?rows)) \<and> ''Z'' \<notin> fst ` set (or_empty (Some ?rows))"
    by (simp add: or_empty_def)
  have r: "upsert_rows ''u1'' (Some ?rows) ?ups
     = [\<lparr> ur_id = ''C'', ur_position = 0, ur_column_id = ''To Do'', ur_user_id = ''u1'',
                 ur_title = Some ''C'', ur_priority = Some medium \<rparr>,
               \<lparr> ur_id = ''A'', ur_position = 1, ur_column_id = ''To Do'', ur_user_id = ''u1'',
                 ur_title = Some ''A'', ur_priority = Some medium \<rparr>,
               \<lparr> ur_id = ''Z'', ur_position = 2, ur_column_id = ''To Do'', ur_user_id = ''u1'',
                 ur_title = None, ur_priority = None \<rparr>]"
    by (simp add: upsert_rows_def or_empty_def js_Map_def)
  have u: "upsert_tasks_resp (store_ok [] todo_ABC) = None"
    by (simp add: store_ok_def)
  show ?thesis
    using position_batch_rows [of "store_ok [] todo_ABC" "''u1''" "Some ?rows" ?ups] h m r u
    by simp
qed

subsection \<open>What the presentation layer reads\<close>

text \<open>
  Claim C6 fails where the hook returns the fetched snapshot itself: the task list
  while \<open>optimisticTasks\<close> is still \<open>null\<close>, and the column list in every state, here
  on a board whose working task list holds a temporary task.
\<close>

theorem raw_snapshot_returned_counterexample:
  "optimisticTasks (mk_board [] [] None) = None
   \<and> useBoard_tasks (mk_board [] [] None) = data (tasksQ (mk_board [] [] None))
   \<and> optimisticTasks (mk_board [mk_column ''c1'' 0] [] (Some [mk_task ''temp-1'' ''c1'' 0]))
       = Some [mk_task ''temp-1'' ''c1'' 0]
   \<and> useBoard_columns (mk_board [mk_column ''c1'' 0] [] (Some [mk_task ''temp-1'' ''c1'' 0]))
       = data (columnsQ (mk_board [mk_column ''c1'' 0] [] (Some [mk_task ''temp-1'' ''c1'' 0])))"
  by (simp add: useBoard_tasks_def useBoard_columns_def columns_def tasks_def mk_board_def)

text \<open>
  Claim C6, amended. Once the working list is filled, the task list the hook returns
  is the working list, so the result of each optimistic updater (create, update,
  delete, move and reorder) is what the next read sees. While the working list is
  \<open>null\<close> the hook returns the fetched task list. The column list it returns is always
  the fetched one: columns have no optimistic copy.
\<close>

theorem returned_lists:
  "(optimisticTasks b = Some w \<longrightarrow>
      useBoard_tasks b = w
    \<and> useBoard_tasks (setOptimisticTasks (create_optimistic tmp) b) = w @ [tmp]
    \<and> useBoard_tasks (setOptimisticTasks (update_optimistic i updates now) b)
        = map (\<lambda>t. if task_id t = i then spread_update t updates now else t) w
    \<and> useBoard_tasks (setOptimisticTasks (delete_optimistic i) b)
        = filter (\<lambda>t. task_id t \<noteq> i) w
    \<and> apply_updates ups now (Some w)
        = Some (useBoard_tasks (setOptimisticTasks (apply_updates ups now) b)))
   \<and> (optimisticTasks b = None \<longrightarrow> useBoard_tasks b = data (tasksQ b))
   \<and> useBoard_columns b = data (columnsQ b)"
  by (simp add: useBoard_tasks_def useBoard_columns_def columns_def tasks_def
      setOptimisticTasks_def create_optimistic_def update_optimistic_def delete_optimistic_def
      apply_updates_def)

theorem returned_lists_witness:
  "optimisticTasks board_A = Some todo_ABC
   \<and> useBoard_tasks board_A = todo_ABC
   \<and> useBoard_tasks (setOptimisticTasks (create_optimistic (mk_task ''temp-1'' ''To Do'' 3)) board_A)
       = todo_ABC @ [mk_task ''temp-1'' ''To Do'' 3]
   \<and> useBoard_tasks (setOptimisticTasks (delete_optimistic ''B'') board_A)
       = [mk_task ''A'' ''To Do'' 0, mk_task ''C'' ''To Do'' 2]
   \<and> optimisticTasks (mk_board [] todo_ABC None) = None
   \<and> useBoard_tasks (mk_board [] todo_ABC None) = todo_ABC"
proof -
  have h: "optimisticTasks board_A = Some todo_ABC \<and> optimisticTasks (mk_board [] todo_ABC None) = None"
    by (simp add: scenario_defs)
  have f: "filter (\<lambda>t. task_id t \<noteq> ''B'') todo_ABC = [mk_task ''A'' ''To Do'' 0, mk_task ''C'' ''To Do'' 2]"
    by (simp add: scenario_defs)
  have d: "data (tasksQ (mk_board [] todo_ABC None)) = todo_ABC"
    by (simp add: mk_board_def mk_query_def)
  show ?thesis
    using returned_lists [where b = board_A and w = todo_ABC and tmp = "mk_task ''temp-1'' ''To Do'' 3"
        and i = "''B''"]
      returned_lists [where b = "mk_board [] todo_ABC None"] h f d
    by simp
qed

subsection \<open>Refreshes caused by the subscriptions\<close>

text \<open>
  Claim C9. In the query hook, while it is mounted and the subscribing effect has not
  been cleaned up, the status \<open>SUBSCRIBED\<close> causes exactly one call of the list query,
  any other status none; while it is mounted, every change notification causes exactly
  one call, whatever its payload. A list the query returns replaces the data. The
  handlers the board registers on its own channels do the same once per notification:
  for columns on every notification, for tasks on \<open>INSERT\<close>, \<open>UPDATE\<close> and \<open>DELETE\<close>,
  where the list returned also replaces the working list. After the cleanup of the
  effect no status causes a call.
\<close>

theorem subscription_refreshes:
  "(isMounted (sub_query s) \<and> isSubscribed s \<longrightarrow>
      snd (on_status ''SUBSCRIBED'' resp s) = 1
    \<and> (\<forall>xs. resp = Inr xs \<longrightarrow> data (sub_query (fst (on_status ''SUBSCRIBED'' resp s))) = xs))
   \<and> (status \<noteq> ''SUBSCRIBED'' \<longrightarrow> on_status status resp s = (s, 0))
   \<and> (isMounted (sub_query s) \<longrightarrow>
      snd (on_postgres_changes payload resp s) = 1
    \<and> (\<forall>xs. resp = Inr xs \<longrightarrow> data (sub_query (fst (on_postgres_changes payload resp s))) = xs))
   \<and> (isMounted (columnsQ b) \<longrightarrow>
      snd (columns_changes payload sb b) = [FetchColumns]
    \<and> (\<forall>cs. fetchColumns sb = Inr cs \<longrightarrow> columns (fst (columns_changes payload sb b)) = cs))
   \<and> (isMounted (tasksQ b) \<and> eventType payload \<in> {''INSERT'', ''UPDATE'', ''DELETE''} \<longrightarrow>
      snd (tasks_changes payload sb b) = [FetchTasks]
    \<and> (\<forall>ts. fetchTasks sb = Inr ts \<longrightarrow>
          tasks (fst (tasks_changes payload sb b)) = ts
        \<and> optimisticTasks (fst (tasks_changes payload sb b)) = Some ts))
   \<and> on_status status resp (effect_cleanup s) = (effect_cleanup s, 0)"
proof -
  have q: "isMounted q \<Longrightarrow> fst (snd (fetchData True r q)) \<and>
      (\<forall>xs. r = Inr xs \<longrightarrow> data (fst (fetchData True r q)) = xs \<and> snd (snd (fetchData True r q)))"
    for q :: "'x query" and r
    by (simp add: fetchData_def split: sum.split thrown.split)
  have a: "isMounted (sub_query s) \<and> isSubscribed s \<longrightarrow>
      snd (on_status ''SUBSCRIBED'' resp s) = 1
    \<and> (\<forall>xs. resp = Inr xs \<longrightarrow> data (sub_query (fst (on_status ''SUBSCRIBED'' resp s))) = xs)"
    using q [of "sub_query s" resp]
    by (auto simp: on_status_def run_fetchData_def split: prod.split)
  have b: "status \<noteq> ''SUBSCRIBED'' \<longrightarrow> on_status status resp s = (s, 0)"
    by (simp add: on_status_def)
  have c: "isMounted (sub_query s) \<longrightarrow>
      snd (on_postgres_changes payload resp s) = 1
    \<and> (\<forall>xs. resp = Inr xs \<longrightarrow> data (sub_query (fst (on_postgres_changes payload resp s))) = xs)"
    using q [of "sub_query s" resp]
    by (auto simp: on_postgres_changes_def run_fetchData_def split: prod.split)
  have d: "isMounted (columnsQ b) \<longrightarrow>
      snd (columns_changes payload sb b) = [FetchColumns]
    \<and> (\<forall>cs. fetchColumns sb = Inr cs \<longrightarrow> columns (fst (columns_changes payload sb b)) = cs)"
    using q [of "columnsQ b" "fetchColumns sb"]
    by (auto simp: columns_changes_def refetchColumns_def columns_def split: prod.split)
  have e: "isMounted (tasksQ b) \<and> eventType payload \<in> {''INSERT'', ''UPDATE'', ''DELETE''} \<longrightarrow>
      snd (tasks_changes payload sb b) = [FetchTasks]
    \<and> (\<forall>ts. fetchTasks sb = Inr ts \<longrightarrow>
          tasks (fst (tasks_changes payload sb b)) = ts
        \<and> optimisticTasks (fst (tasks_changes payload sb b)) = Some ts)"
    using q [of "tasksQ b" "fetchTasks sb"]
    by (auto simp: tasks_changes_def refetchTasks_def tasks_def tasks_effect_def
        setOptimisticTasks_def Let_def split: prod.split)
  have g: "on_status status resp (effect_cleanup s) = (effect_cleanup s, 0)"
    by (simp add: on_status_def effect_cleanup_def)
  show ?thesis
    using a b c d e g by blast
qed

theorem subscription_refreshes_witness:
  "isMounted (sub_query \<lparr> sub_query = mk_query ([] :: task list), isSubscribed = True \<rparr>)
   \<and> isSubscribed \<lparr> sub_query = mk_query ([] :: task list), isSubscribed = True \<rparr>
   \<and> on_status ''SUBSCRIBED'' (Inr todo_ABC) \<lparr> sub_query = mk_query ([] :: task list), isSubscribed = True \<rparr>
       = (\<lparr> sub_query = (mk_query todo_ABC)\<lparr> refreshCount := 2 \<rparr>, isSubscribed = True \<rparr>, 1)
   \<and> ''CHANNEL_ERROR'' \<noteq> ''SUBSCRIBED''
   \<and> on_status ''CHANNEL_ERROR'' (Inr todo_ABC) \<lparr> sub_query = mk_query ([] :: task list), isSubscribed = True \<rparr>
       = (\<lparr> sub_query = mk_query ([] :: task list), isSubscribed = True \<rparr>, 0)
   \<and> on_postgres_changes \<lparr> eventType = ''UPDATE'' \<rparr> (Inr todo_ABC)
          \<lparr> sub_query = mk_query ([] :: task list), isSubscribed = True \<rparr>
       = (\<lparr> sub_query = (mk_query todo_ABC)\<lparr> refreshCount := 2 \<rparr>, isSubscribed = True \<rparr>, 1)
   \<and> isMounted (columnsQ board_A) \<and> isMounted (tasksQ board_A)
   \<and> eventType \<lparr> eventType = ''DELETE'' \<rparr> \<in> {''INSERT'', ''UPDATE'', ''DELETE''}
   \<and> snd (columns_changes \<lparr> eventType = ''DELETE'' \<rparr> (store_ok [mk_column ''c1'' 0] done_XY) board_A)
       = [FetchColumns]
   \<and> columns (fst (columns_changes \<lparr> eventType = ''DELETE'' \<rparr> (store_ok [mk_column ''c1'' 0] done_XY) board_A))
       = [mk_column ''c1'' 0]
   \<and> snd (tasks_changes \<lparr> eventType = ''DELETE'' \<rparr> (store_ok [mk_column ''c1'' 0] done_XY) board_A)
       = [FetchTasks]
   \<and> optimisticTasks (fst (tasks_changes \<lparr> eventType = ''DELETE'' \<rparr> (store_ok [mk_column ''c1'' 0] done_XY) board_A))
       = Some done_XY"
proof -
  let ?s = "\<lparr> sub_query = mk_query ([] :: task list), isSubscribed = True \<rparr>"
  let ?sb = "store_ok [mk_column ''c1'' 0] done_XY"
  have h: "isMounted (sub_query ?s) \<and> isSubscribed ?s \<and> isMounted (columnsQ board_A)
      \<and> isMounted (tasksQ board_A)
      \<and> eventType \<lparr> eventType = ''DELETE'' \<rparr> \<in> {''INSERT'', ''UPDATE'', ''DELETE''}
      \<and> fetchColumns ?sb = Inr [mk_column ''c1'' 0] \<and> fetchTasks ?sb = Inr done_XY"
    by (simp add: mk_query_def board_A_def mk_board_def store_ok_def fetchColumns_def fetchTasks_def)
  have st: "on_status ''SUBSCRIBED'' (Inr todo_ABC) ?s
       = (\<lparr> sub_query = (mk_query todo_ABC)\<lparr> refreshCount := 2 \<rparr>, isSubscribed = True \<rparr>, 1)"
    by (simp add: on_status_def run_fetchData_def fetchData_def mk_query_def)
  have ch: "on_postgres_changes \<lparr> eventType = ''UPDATE'' \<rparr> (Inr todo_ABC) ?s
       = (\<lparr> sub_query = (mk_query todo_ABC)\<lparr> refreshCount := 2 \<rparr>, isSubscribed = True \<rparr>, 1)"
    by (simp add: on_postgres_changes_def run_fetchData_def fetchData_def mk_query_def)
  note t = subscription_refreshes [where s = ?s and resp = "Inr todo_ABC" and status = "''CHANNEL_ERROR''"
      and payload = "\<lparr> eventType = ''DELETE'' \<rparr>" and b = board_A and sb = ?sb]
  have e: "on_status ''CHANNEL_ERROR'' (Inr todo_ABC) ?s = (?s, 0)"
    using t by simp
  have b: "snd (columns_changes \<lparr> eventType = ''DELETE'' \<rparr> ?sb board_A) = [FetchColumns]
     \<and> columns (fst (columns_changes \<lparr> eventType = ''DELETE'' \<rparr> ?sb board_A)) = [mk_column ''c1'' 0]
     \<and> snd (tasks_changes \<lparr> eventType = ''DELETE'' \<rparr> ?sb board_A) = [FetchTasks]
     \<and> optimisticTasks (fst (tasks_changes \<lparr> eventType = ''DELETE'' \<rparr> ?sb board_A)) = Some done_XY"
    using t h by simp
  show ?thesis
    using h st ch e b by simp
qed

subsection \<open>A write that fails\<close>

lemma refetchTasks_ok:
  "isMounted (tasksQ b) \<Longrightarrow> fetchTasks sb = Inr snapshot \<Longrightarrow>
     optimisticTasks (fst (refetchTasks sb b)) = Some snapshot
   \<and> tasks (fst (refetchTasks sb b)) = snapshot
   \<and> error (fst (refetchTasks sb b)) = error b
   \<and> snd (refetchTasks sb b) = [FetchTasks]"
  by (simp add: refetchTasks_def fetchData_def tasks_effect_def setOptimisticTasks_def tasks_def)

lemma on_failure_ok:
  "isMounted (tasksQ b) \<Longrightarrow> fetchTasks sb = Inr snapshot \<Longrightarrow>
     optimisticTasks (fst (on_failure sb fallback e call b)) = Some snapshot
   \<and> tasks (fst (on_failure sb fallback e call b)) = snapshot
   \<and> error (fst (on_failure sb fallback e call b)) = Some (message_or e fallback)
   \<and> snd (on_failure sb fallback e call b) = ([call, FetchTasks], Some e)"
  using refetchTasks_ok [of b sb snapshot]
  by (simp add: on_failure_def setError_def tasks_def case_prod_beta)

lemma tasksQ_setOptimisticTasks: "tasksQ (setOptimisticTasks f b) = tasksQ b"
  by (simp add: setOptimisticTasks_def)

lemma on_failure_throws:
  "snd (snd (on_failure sb fallback e call b)) = Some e
   \<and> error (fst (on_failure sb fallback e call b)) = Some (message_or e fallback)"
  by (simp add: on_failure_def setError_def case_prod_beta)

text \<open>
  Claim C4 fails in two ways. With the store unreachable the refetch of the \<open>catch\<close>
  block fails as well, \<open>fetchData\<close> keeps that error to itself, and the working list
  keeps the temporary task while the fetched snapshot is A, B, C. With a store that
  rejects the insertion but lists a task D that another client has added, the working
  list becomes A, B, C, D, which is not the snapshot from before the call.
\<close>

theorem failed_write_counterexample:
  "tasks board_A = todo_ABC
   \<and> snd (snd (handleCreateTask clock0 store_down ''t'' ''To Do'' low board_A))
       = Some (Error ''Failed to fetch'')
   \<and> tasks (fst (handleCreateTask clock0 store_down ''t'' ''To Do'' low board_A)) = todo_ABC
   \<and> optimisticTasks (fst (handleCreateTask clock0 store_down ''t'' ''To Do'' low board_A))
       = Some (todo_ABC @ [tempTask clock0 ''t'' ''To Do'' low 3])
   \<and> snd (snd (handleCreateTask clock0
         ((store_ok [] (todo_ABC @ [mk_task ''D'' ''To Do'' 3]))
            \<lparr> insert_task_resp := Inl (Error ''Failed to fetch'') \<rparr>)
         ''t'' ''To Do'' low board_A))
       = Some (Error ''Failed to fetch'')
   \<and> optimisticTasks (fst (handleCreateTask clock0
         ((store_ok [] (todo_ABC @ [mk_task ''D'' ''To Do'' 3]))
            \<lparr> insert_task_resp := Inl (Error ''Failed to fetch'') \<rparr>)
         ''t'' ''To Do'' low board_A))
       = Some (todo_ABC @ [mk_task ''D'' ''To Do'' 3])"
  by (simp add: scenario_defs handleCreateTask_def on_failure_def refetchTasks_def fetchData_def
      fetchTasks_def createTask_def setOptimisticTasks_def setError_def tasks_effect_def tasks_def
      create_optimistic_def new_task_position_def tempTask_def message_or_def Let_def)

text \<open>
  Claim C4, amended. When the write of one of the five task operations fails with
  \<open>e\<close>, the operation throws \<open>e\<close> again and stores its message (or the fallback text of
  the operation) as the error of the hook; and when the hook is mounted and the refetch
  of the \<open>catch\<close> block returns a list, that list is afterwards both the fetched
  snapshot and the working list.
\<close>

theorem failed_write_refetches:
  "optimisticTasks b = Some ots \<longrightarrow>
     ((createTask sb ttl columnId prio (new_task_position ots columnId) = Inl e) \<longrightarrow>
        snd (snd (handleCreateTask clk sb ttl columnId prio b)) = Some e
      \<and> error (fst (handleCreateTask clk sb ttl columnId prio b)) = Some (message_or e ''Failed to create task'')
      \<and> (isMounted (tasksQ b) \<and> fetchTasks sb = Inr snapshot \<longrightarrow>
            optimisticTasks (fst (handleCreateTask clk sb ttl columnId prio b)) = Some snapshot
          \<and> tasks (fst (handleCreateTask clk sb ttl columnId prio b)) = snapshot))
   \<and> ((updateTask sb i updates = Inl e) \<longrightarrow>
        snd (snd (handleUpdateTask clk sb i updates b)) = Some e
      \<and> error (fst (handleUpdateTask clk sb i updates b)) = Some (message_or e ''Failed to update task'')
      \<and> (isMounted (tasksQ b) \<and> fetchTasks sb = Inr snapshot \<longrightarrow>
            optimisticTasks (fst (handleUpdateTask clk sb i updates b)) = Some snapshot
          \<and> tasks (fst (handleUpdateTask clk sb i updates b)) = snapshot))
   \<and> ((deleteTask sb i = Some e) \<longrightarrow>
        snd (snd (handleDeleteTask sb i b)) = Some e
      \<and> error (fst (handleDeleteTask sb i b)) = Some (message_or e ''Failed to delete task'')
      \<and> (isMounted (tasksQ b) \<and> fetchTasks sb = Inr snapshot \<longrightarrow>
            optimisticTasks (fst (handleDeleteTask sb i b)) = Some snapshot
          \<and> tasks (fst (handleDeleteTask sb i b)) = snapshot))
   \<and> ((find (\<lambda>t. task_id t = taskId) ots \<noteq> None
        \<and> snd (updateTaskPositions sb (move_updates ots taskId C P)) = Some e) \<longrightarrow>
        snd (snd (handleMoveTask clk sb taskId C P b)) = Some e
      \<and> error (fst (handleMoveTask clk sb taskId C P b)) = Some (message_or e ''Failed to move task'')
      \<and> (isMounted (tasksQ b) \<and> fetchTasks sb = Inr snapshot \<longrightarrow>
            optimisticTasks (fst (handleMoveTask clk sb taskId C P b)) = Some snapshot
          \<and> tasks (fst (handleMoveTask clk sb taskId C P b)) = snapshot))
   \<and> ((snd (updateTaskPositions sb ups) = Some e) \<longrightarrow>
        snd (snd (handleReorderTasks clk sb ups b)) = Some e
      \<and> error (fst (handleReorderTasks clk sb ups b)) = Some (message_or e ''Failed to reorder tasks'')
      \<and> (isMounted (tasksQ b) \<and> fetchTasks sb = Inr snapshot \<longrightarrow>
            optimisticTasks (fst (handleReorderTasks clk sb ups b)) = Some snapshot
          \<and> tasks (fst (handleReorderTasks clk sb ups b)) = snapshot))"
proof (intro impI)
  assume h: "optimisticTasks b = Some ots"
  have f: "snd (snd (on_failure sb fallback e call (setOptimisticTasks g b))) = Some e
   \<and> error (fst (on_failure sb fallback e call (setOptimisticTasks g b))) = Some (message_or e fallback)
   \<and> (isMounted (tasksQ b) \<and> fetchTasks sb = Inr snapshot \<longrightarrow>
         optimisticTasks (fst (on_failure sb fallback e call (setOptimisticTasks g b))) = Some snapshot
       \<and> tasks (fst (on_failure sb fallback e call (setOptimisticTasks g b))) = snapshot)"
    for fallback call g
    using on_failure_ok [of "setOptimisticTasks g b" sb snapshot fallback e call]
      on_failure_throws [of sb fallback e call "setOptimisticTasks g b"]
    by (simp add: tasksQ_setOptimisticTasks)
  have cr: "createTask sb ttl columnId prio (new_task_position ots columnId) = Inl e \<Longrightarrow>
      handleCreateTask clk sb ttl columnId prio b
        = on_failure sb ''Failed to create task'' e
            (CreateTask ttl columnId prio (new_task_position ots columnId))
            (setOptimisticTasks (create_optimistic
               (tempTask clk ttl columnId prio (new_task_position ots columnId))) b)"
    using h by (simp add: handleCreateTask_def Let_def)
  have up: "updateTask sb i updates = Inl e \<Longrightarrow>
      handleUpdateTask clk sb i updates b
        = on_failure sb ''Failed to update task'' e (UpdateTask i updates)
            (setOptimisticTasks (update_optimistic i updates (now_iso clk)) b)"
    using h by (simp add: handleUpdateTask_def Let_def)
  have de: "deleteTask sb i = Some e \<Longrightarrow>
      handleDeleteTask sb i b
        = on_failure sb ''Failed to delete task'' e (DeleteTask i)
            (setOptimisticTasks (delete_optimistic i) b)"
    using h by (simp add: handleDeleteTask_def Let_def)
  have mv: "find (\<lambda>t. task_id t = taskId) ots \<noteq> None
        \<and> snd (updateTaskPositions sb (move_updates ots taskId C P)) = Some e \<Longrightarrow>
      handleMoveTask clk sb taskId C P b
        = on_failure sb ''Failed to move task'' e
            (UpdateTaskPositions (move_updates ots taskId C P))
            (setOptimisticTasks (apply_updates (move_updates ots taskId C P) (now_iso clk)) b)"
    using h by (auto simp: handleMoveTask_def Let_def)
  have re: "snd (updateTaskPositions sb ups) = Some e \<Longrightarrow>
      handleReorderTasks clk sb ups b
        = on_failure sb ''Failed to reorder tasks'' e (UpdateTaskPositions ups)
            (setOptimisticTasks (apply_updates ups (now_iso clk)) b)"
    using h by (simp add: handleReorderTasks_def Let_def)
  show "((createTask sb ttl columnId prio (new_task_position ots columnId) = Inl e) \<longrightarrow>
        snd (snd (handleCreateTask clk sb ttl columnId prio b)) = Some e
      \<and> error (fst (handleCreateTask clk sb ttl columnId prio b)) = Some (message_or e ''Failed to create task'')
      \<and> (isMounted (tasksQ b) \<and> fetchTasks sb = Inr snapshot \<longrightarrow>
            optimisticTasks (fst (handleCreateTask clk sb ttl columnId prio b)) = Some snapshot
          \<and> tasks (fst (handleCreateTask clk sb ttl columnId prio b)) = snapshot))
   \<and> ((updateTask sb i updates = Inl e) \<longrightarrow>
        snd (snd (handleUpdateTask clk sb i updates b)) = Some e
      \<and> error (fst (handleUpdateTask clk sb i updates b)) = Some (message_or e ''Failed to update task'')
      \<and> (isMounted (tasksQ b) \<and> fetchTasks sb = Inr snapshot \<longrightarrow>
            optimisticTasks (fst (handleUpdateTask clk sb i updates b)) = Some snapshot
          \<and> tasks (fst (handleUpdateTask clk sb i updates b)) = snapshot))
   \<and> ((deleteTask sb i = Some e) \<longrightarrow>
        snd (snd (handleDeleteTask sb i b)) = Some e
      \<and> error (fst (handleDeleteTask sb i b)) = Some (message_or e ''Failed to delete task'')
      \<and> (isMounted (tasksQ b) \<and> fetchTasks sb = Inr snapshot \<longrightarrow>
            optimisticTasks (fst (handleDeleteTask sb i b)) = Some snapshot
          \<and> tasks (fst (handleDeleteTask sb i b)) = snapshot))
   \<and> ((find (\<lambda>t. task_id t = taskId) ots \<noteq> None
        \<and> snd (updateTaskPositions sb (move_updates ots taskId C P)) = Some e) \<longrightarrow>
        snd (snd (handleMoveTask clk sb taskId C P b)) = Some e
      \<and> error (fst (handleMoveTask clk sb taskId C P b)) = Some (message_or e ''Failed to move task'')
      \<and> (isMounted (tasksQ b) \<and> fetchTasks sb = Inr snapshot \<longrightarrow>
            optimisticTasks (fst (handleMoveTask clk sb taskId C P b)) = Some snapshot
          \<and> tasks (fst (handleMoveTask clk sb taskId C P b)) = snapshot))
   \<and> ((snd (updateTaskPositions sb ups) = Some e) \<longrightarrow>
        snd (snd (handleReorderTasks clk sb ups b)) = Some e
      \<and> error (fst (handleReorderTasks clk sb ups b)) = Some (message_or e ''Failed to reorder tasks'')
      \<and> (isMounted (tasksQ b) \<and> fetchTasks sb = Inr snapshot \<longrightarrow>
            optimisticTasks (fst (handleReorderTasks clk sb ups b)) = Some snapshot
          \<and> tasks (fst (handleReorderTasks clk sb ups b)) = snapshot))"
    using cr up de mv re f by presburger
qed

theorem failed_write_refetches_witness:
  "optimisticTasks board_A = Some todo_ABC \<and> isMounted (tasksQ board_A)
   \<and> fetchTasks ((store_ok [] todo_ABC) \<lparr> insert_task_resp := Inl (Error ''Failed to fetch'') \<rparr>)
       = Inr todo_ABC
   \<and> createTask ((store_ok [] todo_ABC) \<lparr> insert_task_resp := Inl (Error ''Failed to fetch'') \<rparr>)
        ''t'' ''To Do'' low (new_task_position todo_ABC ''To Do'') = Inl (Error ''Failed to fetch'')
   \<and> optimisticTasks (fst (handleCreateTask clock0
         ((store_ok [] todo_ABC) \<lparr> insert_task_resp := Inl (Error ''Failed to fetch'') \<rparr>)
         ''t'' ''To Do'' low board_A)) = Some todo_ABC
   \<and> snd (snd (handleCreateTask clock0
         ((store_ok [] todo_ABC) \<lparr> insert_task_resp := Inl (Error ''Failed to fetch'') \<rparr>)
         ''t'' ''To Do'' low board_A)) = Some (Error ''Failed to fetch'')
   \<and> updateTask ((store_ok [] todo_ABC) \<lparr> update_task_resp := Inl (NonError ''PGRST116'') \<rparr>) ''A''
        \<lparr> tu_title = Some ''a'', tu_priority = None, tu_column_id = None, tu_position = None \<rparr>
       = Inl (NonError ''PGRST116'')
   \<and> optimisticTasks (fst (handleUpdateTask clock0
         ((store_ok [] todo_ABC) \<lparr> update_task_resp := Inl (NonError ''PGRST116'') \<rparr>) ''A''
         \<lparr> tu_title = Some ''a'', tu_priority = None, tu_column_id = None, tu_position = None \<rparr>
         board_A)) = Some todo_ABC
   \<and> error (fst (handleUpdateTask clock0
         ((store_ok [] todo_ABC) \<lparr> update_task_resp := Inl (NonError ''PGRST116'') \<rparr>) ''A''
         \<lparr> tu_title = Some ''a'', tu_priority = None, tu_column_id = None, tu_position = None \<rparr>
         board_A)) = Some ''Failed to update task''
   \<and> deleteTask ((store_ok [] todo_ABC) \<lparr> delete_task_resp := Some (Error ''Failed to fetch'') \<rparr>) ''B''
       = Some (Error ''Failed to fetch'')
   \<and> optimisticTasks (fst (handleDeleteTask
         ((store_ok [] todo_ABC) \<lparr> delete_task_resp := Some (Error ''Failed to fetch'') \<rparr>) ''B''
         board_A)) = Some todo_ABC
   \<and> find (\<lambda>t. task_id t = ''A'') todo_ABC \<noteq> None
   \<and> snd (updateTaskPositions ((store_ok [] todo_ABC) \<lparr> auth_user := None \<rparr>)
         (move_updates todo_ABC ''A'' ''Done'' 0)) = Some (Error ''Not authenticated'')
   \<and> fetchTasks ((store_ok [] todo_ABC) \<lparr> auth_user := None \<rparr>) = Inr todo_ABC
   \<and> optimisticTasks (fst (handleMoveTask clock0 ((store_ok [] todo_ABC) \<lparr> auth_user := None \<rparr>)
         ''A'' ''Done'' 0 board_A)) = Some todo_ABC
   \<and> error (fst (handleMoveTask clock0 ((store_ok [] todo_ABC) \<lparr> auth_user := None \<rparr>)
         ''A'' ''Done'' 0 board_A)) = Some ''Not authenticated''
   \<and> snd (updateTaskPositions
         ((store_ok [] todo_ABC) \<lparr> upsert_tasks_resp := Some (Error ''Failed to fetch'') \<rparr>)
         [\<lparr> upd_id = ''C'', upd_position = 0, upd_column_id = ''To Do'' \<rparr>])
       = Some (Error ''Failed to fetch'')
   \<and> optimisticTasks (fst (handleReorderTasks clock0
         ((store_ok [] todo_ABC) \<lparr> upsert_tasks_resp := Some (Error ''Failed to fetch'') \<rparr>)
         [\<lparr> upd_id = ''C'', upd_position = 0, upd_column_id = ''To Do'' \<rparr>] board_A))
       = Some todo_ABC"
proof -
  let ?sb1 = "(store_ok [] todo_ABC) \<lparr> insert_task_resp := Inl (Error ''Failed to fetch'') \<rparr>"
  let ?sb2 = "(store_ok [] todo_ABC) \<lparr> auth_user := None \<rparr>"
  let ?sb3 = "(store_ok [] todo_ABC) \<lparr> update_task_resp := Inl (NonError ''PGRST116'') \<rparr>"
  let ?sb4 = "(store_ok [] todo_ABC) \<lparr> delete_task_resp := Some (Error ''Failed to fetch'') \<rparr>"
  let ?sb5 = "(store_ok [] todo_ABC) \<lparr> upsert_tasks_resp := Some (Error ''Failed to fetch'') \<rparr>"
  let ?u = "\<lparr> tu_title = Some ''a'', tu_priority = None, tu_column_id = None, tu_position = None \<rparr>"
  let ?r = "[\<lparr> upd_id = ''C'', upd_position = 0, upd_column_id = ''To Do'' \<rparr>]"
  have b: "optimisticTasks board_A = Some todo_ABC \<and> isMounted (tasksQ board_A)"
    by (simp add: board_A_def mk_board_def mk_query_def)
  have h1: "fetchTasks ?sb1 = Inr todo_ABC
      \<and> createTask ?sb1 ''t'' ''To Do'' low (new_task_position todo_ABC ''To Do'')
          = Inl (Error ''Failed to fetch'')"
    by (simp add: fetchTasks_def createTask_def store_ok_def)
  have h2: "fetchTasks ?sb2 = Inr todo_ABC \<and> find (\<lambda>t. task_id t = ''A'') todo_ABC \<noteq> None
      \<and> snd (updateTaskPositions ?sb2 (move_updates todo_ABC ''A'' ''Done'' 0))
          = Some (Error ''Not authenticated'')"
    by (simp add: fetchTasks_def updateTaskPositions_def store_ok_def todo_ABC_def mk_task_def)
  have h3: "fetchTasks ?sb3 = Inr todo_ABC \<and> updateTask ?sb3 ''A'' ?u = Inl (NonError ''PGRST116'')"
    by (simp add: fetchTasks_def updateTask_def store_ok_def)
  have h4: "fetchTasks ?sb4 = Inr todo_ABC \<and> deleteTask ?sb4 ''B'' = Some (Error ''Failed to fetch'')"
    by (simp add: fetchTasks_def deleteTask_def store_ok_def)
  have h5: "fetchTasks ?sb5 = Inr todo_ABC
      \<and> snd (updateTaskPositions ?sb5 ?r) = Some (Error ''Failed to fetch'')"
    by (simp add: fetchTasks_def updateTaskPositions_def store_ok_def)
  have r1: "optimisticTasks (fst (handleCreateTask clock0 ?sb1 ''t'' ''To Do'' low board_A)) = Some todo_ABC
     \<and> snd (snd (handleCreateTask clock0 ?sb1 ''t'' ''To Do'' low board_A))
       = Some (Error ''Failed to fetch'')"
    using failed_write_refetches [where b = board_A and ots = todo_ABC and sb = ?sb1
      and snapshot = todo_ABC and ttl = "''t''" and columnId = "''To Do''" and prio = low
      and e = "Error ''Failed to fetch''" and clk = clock0] b h1
    by simp
  have r2: "optimisticTasks (fst (handleMoveTask clock0 ?sb2 ''A'' ''Done'' 0 board_A)) = Some todo_ABC
     \<and> error (fst (handleMoveTask clock0 ?sb2 ''A'' ''Done'' 0 board_A)) = Some ''Not authenticated''"
    using failed_write_refetches [where b = board_A and ots = todo_ABC and sb = ?sb2
      and snapshot = todo_ABC and taskId = "''A''" and C = "''Done''" and P = 0
      and e = "Error ''Not authenticated''" and clk = clock0] b h2
    by (simp add: message_or_def)
  have r3: "optimisticTasks (fst (handleUpdateTask clock0 ?sb3 ''A'' ?u board_A)) = Some todo_ABC
     \<and> error (fst (handleUpdateTask clock0 ?sb3 ''A'' ?u board_A)) = Some ''Failed to update task''"
    using failed_write_refetches [where b = board_A and ots = todo_ABC and sb = ?sb3
      and snapshot = todo_ABC and i = "''A''" and updates = ?u
      and e = "NonError ''PGRST116''" and clk = clock0] b h3
    by (simp add: message_or_def)
  have r4: "optimisticTasks (fst (handleDeleteTask ?sb4 ''B'' board_A)) = Some todo_ABC"
    using failed_write_refetches [where b = board_A and ots = todo_ABC and sb = ?sb4
      and snapshot = todo_ABC and i = "''B''" and e = "Error ''Failed to fetch''"] b h4
    by simp
  have r5: "optimisticTasks (fst (handleReorderTasks clock0 ?sb5 ?r board_A)) = Some todo_ABC"
    using failed_write_refetches [where b = board_A and ots = todo_ABC and sb = ?sb5
      and snapshot = todo_ABC and ups = ?r and e = "Error ''Failed to fetch''" and clk = clock0] b h5
    by simp
  show ?thesis
    using b h1 h2 h3 h4 h5 r1 r2 r3 r4 r5 by simp
qed

subsection \<open>Moving a task to where it is\<close>

text \<open>
  Claim C2 fails for \<open>handleMoveTask\<close>: moving A, which is at position 0 of "To Do", to
  position 0 of "To Do" sends a batch of three updates and shifts B and C in the
  working list.
\<close>

theorem move_to_own_place_counterexample:
  "find (\<lambda>t. task_id t = ''A'') todo_ABC = Some (mk_task ''A'' ''To Do'' 0)
   \<and> snd (handleMoveTask clock0 (store_ok [] todo_ABC) ''A'' ''To Do'' 0 board_A)
       = ([UpdateTaskPositions
             [\<lparr> upd_id = ''B'', upd_position = 2, upd_column_id = ''To Do'' \<rparr>,
              \<lparr> upd_id = ''C'', upd_position = 3, upd_column_id = ''To Do'' \<rparr>,
              \<lparr> upd_id = ''A'', upd_position = 0, upd_column_id = ''To Do'' \<rparr>]], None)
   \<and> map position (useBoard_tasks board_A) = [0, 1, 2]
   \<and> map position (useBoard_tasks
          (fst (handleMoveTask clock0 (store_ok [] todo_ABC) ''A'' ''To Do'' 0 board_A))) = [0, 2, 3]"
  by (simp add: scenario_defs handleMoveTask_def move_updates_def apply_updates_def
      setOptimisticTasks_def updateTaskPositions_def useBoard_tasks_def Let_def)

text \<open>
  Claim C2, amended. The check sits in \<open>handleDragEnd\<close>: when a task is dropped onto
  the column it is already in, \<open>moveTask\<close> is not called, nothing is sent and the board
  is unchanged. \<open>handleMoveTask\<close> itself does not look at where the task is: whenever
  the cache holds the task it passes a batch to the gateway, and the batch contains
  the update of the moved task.
\<close>

theorem drop_on_own_column_is_noop:
  "(find (\<lambda>t. StringId (task_id t) = activeId) (useBoard_tasks b) = Some activeTask
      \<and> \<not> list_ex (\<lambda>t. task_id t = columnId) (useBoard_tasks b)
      \<and> column_id activeTask = columnId \<longrightarrow>
        handleDragEnd clk sb activeId (Some (StringId columnId)) b = (b, []))
   \<and> (optimisticTasks b = Some ots \<and> find (\<lambda>t. task_id t = taskId) ots \<noteq> None \<longrightarrow>
        (\<exists>calls. fst (snd (handleMoveTask clk sb taskId C P b))
                   = UpdateTaskPositions (move_updates ots taskId C P) # calls)
      \<and> \<lparr> upd_id = taskId, upd_position = P, upd_column_id = C \<rparr>
           \<in> set (move_updates ots taskId C P))"
proof -
  have a: "find (\<lambda>t. StringId (task_id t) = activeId) (useBoard_tasks b) = Some activeTask
      \<and> \<not> list_ex (\<lambda>t. task_id t = columnId) (useBoard_tasks b)
      \<and> column_id activeTask = columnId \<longrightarrow>
        handleDragEnd clk sb activeId (Some (StringId columnId)) b = (b, [])"
    by (simp add: handleDragEnd_def Let_def)
  have m: "optimisticTasks b = Some ots \<and> find (\<lambda>t. task_id t = taskId) ots \<noteq> None \<longrightarrow>
        (\<exists>calls. fst (snd (handleMoveTask clk sb taskId C P b))
                   = UpdateTaskPositions (move_updates ots taskId C P) # calls)"
    by (auto simp: handleMoveTask_def on_failure_def Let_def split: option.split prod.split)
  have u: "\<lparr> upd_id = taskId, upd_position = P, upd_column_id = C \<rparr>
           \<in> set (move_updates ots taskId C P)"
    by (simp add: move_updates_def)
  show ?thesis
    using a m u by blast
qed

theorem drop_on_own_column_is_noop_witness:
  "find (\<lambda>t. StringId (task_id t) = StringId ''A'') (useBoard_tasks board_A)
      = Some (mk_task ''A'' ''To Do'' 0)
   \<and> \<not> list_ex (\<lambda>t. task_id t = ''To Do'') (useBoard_tasks board_A)
   \<and> column_id (mk_task ''A'' ''To Do'' 0) = ''To Do''
   \<and> handleDragEnd clock0 store_down (StringId ''A'') (Some (StringId ''To Do'')) board_A
       = (board_A, [])
   \<and> optimisticTasks board_A = Some todo_ABC
   \<and> find (\<lambda>t. task_id t = ''A'') todo_ABC \<noteq> None
   \<and> \<lparr> upd_id = ''A'', upd_position = 0, upd_column_id = ''To Do'' \<rparr>
        \<in> set (move_updates todo_ABC ''A'' ''To Do'' 0)"
proof -
  have h: "find (\<lambda>t. StringId (task_id t) = StringId ''A'') (useBoard_tasks board_A)
      = Some (mk_task ''A'' ''To Do'' 0)
   \<and> \<not> list_ex (\<lambda>t. task_id t = ''To Do'') (useBoard_tasks board_A)
   \<and> column_id (mk_task ''A'' ''To Do'' 0) = ''To Do''
   \<and> optimisticTasks board_A = Some todo_ABC
   \<and> find (\<lambda>t. task_id t = ''A'') todo_ABC \<noteq> None"
    by (simp add: scenario_defs useBoard_tasks_def)
  show ?thesis
    using h drop_on_own_column_is_noop [where activeId = "StringId ''A''" and b = board_A
        and activeTask = "mk_task ''A'' ''To Do'' 0" and columnId = "''To Do''" and clk = clock0
        and sb = store_down and ots = todo_ABC and taskId = "''A''" and C = "''To Do''" and P = 0]
    by simp
qed

end
